theory Spec2Isabelle
  imports Complex_Main "HOL-Library.Word"
begin

unbundle bit_operations_syntax

section \<open>JavaScript strings and byte buffers\<close>

text \<open>
  A JavaScript string is a sequence of UTF-16 code units, and \<^verbatim>\<open>value.length\<close> counts
  code units. A \<^verbatim>\<open>Buffer\<close> is a sequence of bytes. \<open>js\<close> turns an ASCII literal of
  the source into the string it denotes; \<open>decimal\<close> is \<^verbatim>\<open>String(n)\<close> for a
  non-negative integer such as a length or an HTTP status.
\<close>

type_synonym jsstring = "16 word list"
type_synonym bytes = "8 word list"

definition js :: "string \<Rightarrow> jsstring" where
  "js s = map of_char s"

fun decimal :: "nat \<Rightarrow> jsstring" where
  "decimal n = (if n < 10 then [0x30 + of_nat n]
                else decimal (n div 10) @ [0x30 + of_nat (n mod 10)])"

declare decimal.simps [simp del]

definition join :: "jsstring \<Rightarrow> jsstring list \<Rightarrow> jsstring" where
  "join sep xs = (case xs of [] \<Rightarrow> [] | y # ys \<Rightarrow> y @ concat (map (\<lambda>z. sep @ z) ys))"

text \<open>
  \<^verbatim>\<open>hmac.update(hmacInput, 'utf8')\<close> encodes the string as UTF-8: a surrogate pair is one
  four-byte sequence, and a surrogate that is not part of a pair is encoded as U+FFFD
  (\<^verbatim>\<open>EF BF BD\<close>).
\<close>

definition isHighSurrogate :: "16 word \<Rightarrow> bool" where
  "isHighSurrogate u \<longleftrightarrow> 0xD800 \<le> u \<and> u \<le> 0xDBFF"

definition isLowSurrogate :: "16 word \<Rightarrow> bool" where
  "isLowSurrogate u \<longleftrightarrow> 0xDC00 \<le> u \<and> u \<le> 0xDFFF"

definition utf8_codepoint :: "nat \<Rightarrow> bytes" where
  "utf8_codepoint c =
     (if c < 0x80 then [of_nat c]
      else if c < 0x800 then [of_nat (0xC0 + c div 64), of_nat (0x80 + c mod 64)]
      else if c < 0x10000 then
        [of_nat (0xE0 + c div 4096), of_nat (0x80 + c div 64 mod 64), of_nat (0x80 + c mod 64)]
      else
        [of_nat (0xF0 + c div 262144), of_nat (0x80 + c div 4096 mod 64),
         of_nat (0x80 + c div 64 mod 64), of_nat (0x80 + c mod 64)])"

fun utf8 :: "jsstring \<Rightarrow> bytes" where
  "utf8 [] = []"
| "utf8 [u] =
     (if isHighSurrogate u \<or> isLowSurrogate u then utf8_codepoint 0xFFFD
      else utf8_codepoint (unat u))"
| "utf8 (u # l # us) =
     (if isHighSurrogate u \<and> isLowSurrogate l then
        utf8_codepoint (0x10000 + (unat u - 0xD800) * 1024 + (unat l - 0xDC00)) @ utf8 us
      else if isHighSurrogate u \<or> isLowSurrogate u then utf8_codepoint 0xFFFD @ utf8 (l # us)
      else utf8_codepoint (unat u) @ utf8 (l # us))"

text \<open>
  \<^verbatim>\<open>Buffer.from(key, 'hex')\<close> decodes pairs of hexadecimal digits and stops at the first
  pair that is not hexadecimal (a trailing single digit is dropped);
  \<^verbatim>\<open>digest('hex')\<close> renders each byte as two lower-case digits.
  \<open>toUpperCase\<close> is given on the ASCII letters, the only letters a hex digest contains.
\<close>

definition unhex :: "16 word \<Rightarrow> nat option" where
  "unhex u =
     (if 0x30 \<le> u \<and> u \<le> 0x39 then Some (unat u - 0x30)
      else if 0x41 \<le> u \<and> u \<le> 0x46 then Some (unat u - 0x41 + 10)
      else if 0x61 \<le> u \<and> u \<le> 0x66 then Some (unat u - 0x61 + 10)
      else None)"

fun Buffer_from_hex :: "jsstring \<Rightarrow> bytes" where
  "Buffer_from_hex (a # b # rest) =
     (case (unhex a, unhex b) of
        (Some h, Some l) \<Rightarrow> of_nat (16 * h + l) # Buffer_from_hex rest
      | _ \<Rightarrow> [])"
| "Buffer_from_hex _ = []"

definition hexdigit :: "nat \<Rightarrow> 16 word" where
  "hexdigit d = (if d < 10 then 0x30 + of_nat d else 0x61 + of_nat (d - 10))"

definition toString_hex :: "bytes \<Rightarrow> jsstring" where
  "toString_hex bs = concat (map (\<lambda>b. [hexdigit (unat b div 16), hexdigit (unat b mod 16)]) bs)"

definition toUpperCase :: "jsstring \<Rightarrow> jsstring" where
  "toUpperCase s = map (\<lambda>u. if 0x61 \<le> u \<and> u \<le> 0x7A then u - 0x20 else u) s"

subsection \<open>MD5 (RFC 1321) and HMAC (RFC 2104), as \<^verbatim>\<open>createHmac('md5', key)\<close> computes them\<close>

type_synonym md5_state = "32 word \<times> 32 word \<times> 32 word \<times> 32 word"

definition md5_K :: "32 word list" where
  "md5_K = [
    0xd76aa478, 0xe8c7b756, 0x242070db, 0xc1bdceee, 0xf57c0faf, 0x4787c62a, 0xa8304613, 0xfd469501,
    0x698098d8, 0x8b44f7af, 0xffff5bb1, 0x895cd7be, 0x6b901122, 0xfd987193, 0xa679438e, 0x49b40821,
    0xf61e2562, 0xc040b340, 0x265e5a51, 0xe9b6c7aa, 0xd62f105d, 0x02441453, 0xd8a1e681, 0xe7d3fbc8,
    0x21e1cde6, 0xc33707d6, 0xf4d50d87, 0x455a14ed, 0xa9e3e905, 0xfcefa3f8, 0x676f02d9, 0x8d2a4c8a,
    0xfffa3942, 0x8771f681, 0x6d9d6122, 0xfde5380c, 0xa4beea44, 0x4bdecfa9, 0xf6bb4b60, 0xbebfbc70,
    0x289b7ec6, 0xeaa127fa, 0xd4ef3085, 0x04881d05, 0xd9d4d039, 0xe6db99e5, 0x1fa27cf8, 0xc4ac5665,
    0xf4292244, 0x432aff97, 0xab9423a7, 0xfc93a039, 0x655b59c3, 0x8f0ccc92, 0xffeff47d, 0x85845dd1,
    0x6fa87e4f, 0xfe2ce6e0, 0xa3014314, 0x4e0811a1, 0xf7537e82, 0xbd3af235, 0x2ad7d2bb, 0xeb86d391]"

definition md5_shift :: "nat list" where
  "md5_shift = [7, 12, 17, 22, 7, 12, 17, 22, 7, 12, 17, 22, 7, 12, 17, 22,
                5, 9, 14, 20, 5, 9, 14, 20, 5, 9, 14, 20, 5, 9, 14, 20,
                4, 11, 16, 23, 4, 11, 16, 23, 4, 11, 16, 23, 4, 11, 16, 23,
                6, 10, 15, 21, 6, 10, 15, 21, 6, 10, 15, 21, 6, 10, 15, 21]"

definition rotl32 :: "nat \<Rightarrow> 32 word \<Rightarrow> 32 word" where
  "rotl32 n x = push_bit n x OR drop_bit (32 - n) x"

definition le32 :: "bytes \<Rightarrow> 32 word" where
  "le32 bs = foldr (\<lambda>b acc. ucast b + push_bit 8 acc) bs 0"

definition md5_word :: "bytes \<Rightarrow> nat \<Rightarrow> 32 word" where
  "md5_word blk g = le32 (take 4 (drop (4 * g) blk))"

definition md5_step :: "bytes \<Rightarrow> md5_state \<Rightarrow> nat \<Rightarrow> md5_state" where
  "md5_step blk st i =
     (case st of (a, b, c, d) \<Rightarrow>
        let (f, g) =
              (if i < 16 then ((b AND c) OR (NOT b AND d), i)
               else if i < 32 then ((d AND b) OR (NOT d AND c), (5 * i + 1) mod 16)
               else if i < 48 then (b XOR c XOR d, (3 * i + 5) mod 16)
               else (c XOR (b OR NOT d), (7 * i) mod 16));
            f' = f + a + md5_K ! i + md5_word blk g
        in (d, b + rotl32 (md5_shift ! i) f', b, c))"

definition md5_compress :: "md5_state \<Rightarrow> bytes \<Rightarrow> md5_state" where
  "md5_compress st blk =
     (case st of (a0, b0, c0, d0) \<Rightarrow>
        case foldl (md5_step blk) st [0..<64] of (a, b, c, d) \<Rightarrow>
          (a0 + a, b0 + b, c0 + c, d0 + d))"

function md5_blocks :: "md5_state \<Rightarrow> bytes \<Rightarrow> md5_state" where
  "md5_blocks st bs =
     (if length bs < 64 then st else md5_blocks (md5_compress st (take 64 bs)) (drop 64 bs))"
  by pat_completeness auto
termination
  by (relation "measure (\<lambda>(st, bs). length bs)") auto

declare md5_blocks.simps [simp del]

definition le_bytes :: "nat \<Rightarrow> 'a::len word \<Rightarrow> bytes" where
  "le_bytes k w = map (\<lambda>i. ucast (drop_bit (8 * i) w)) [0..<k]"

definition md5_pad :: "bytes \<Rightarrow> bytes" where
  "md5_pad m = m @ [0x80] @ replicate ((119 - length m mod 64) mod 64) 0
                 @ le_bytes 8 (of_nat (8 * length m) :: 64 word)"

definition md5 :: "bytes \<Rightarrow> bytes" where
  "md5 m =
     (case md5_blocks (0x67452301, 0xefcdab89, 0x98badcfe, 0x10325476) (md5_pad m) of
        (a, b, c, d) \<Rightarrow> concat (map (\<lambda>w. le_bytes 4 w) [a, b, c, d]))"

definition hmac_md5 :: "bytes \<Rightarrow> bytes \<Rightarrow> bytes" where
  "hmac_md5 key msg =
     (let k = (if length key > 64 then md5 key else key);
          k0 = k @ replicate (64 - length k) 0
      in md5 (map (\<lambda>b. b XOR 0x5c) k0 @ md5 (map (\<lambda>b. b XOR 0x36) k0 @ msg)))"

section \<open>Data model (\<^verbatim>\<open>types.ts\<close>)\<close>

text \<open>
  An optional property is an \<open>option\<close>: \<open>None\<close> is \<^verbatim>\<open>undefined\<close>. A \<^verbatim>\<open>number\<close> is
  a double: a finite value (given by the rational it denotes), negative zero, NaN or an
  infinity. An object literal such as \<^verbatim>\<open>data\<close> is the list of its properties in
  insertion order, which is the order \<^verbatim>\<open>Object.values\<close> follows for names that are
  not array indices (none of the names used here is one).
\<close>

datatype jsnumber = Finite rat | NegZero | NaN | PosInfinity | NegInfinity

type_synonym fields = "(jsstring \<times> jsstring) list"

record EuPlatescConfig =
  merchantId :: jsstring
  secretKey :: jsstring
  testMode :: "bool option"

record PaymentRequest =
  amount :: jsnumber
  currency :: jsstring
  invoiceId :: jsstring
  orderDescription :: jsstring
  generateEpid :: "bool option"
  valability :: "jsstring option"
  c2pId :: "jsstring option"
  c2pCid :: "jsstring option"
  lang :: "jsstring option"

record TransactionStatus =
  epId :: jsstring
  invoiceId :: jsstring
  amount :: jsstring
  currency :: jsstring
  status :: jsstring
  message :: jsstring
  approval :: jsstring
  timestamp :: jsstring
  nonce :: jsstring
  fpHash :: jsstring

record WebServiceConfig =
  userKey :: jsstring
  uapiKey :: jsstring

record CheckStatusRequest =
  epid :: "jsstring option"
  invoiceId :: "jsstring option"

record RecurringCancellationRequest =
  epid :: jsstring
  reason :: "jsstring option"

record RefundRequest =
  epid :: jsstring
  amount :: jsnumber
  reason :: jsstring

record CaptureRequest =
  epid :: jsstring
  amount :: "jsnumber option"

record CapturedTotalsOptions =
  mids :: "jsstring list"
  from' :: "jsstring option"
  to' :: "jsstring option"

record InvoicesOptions =
  from' :: "jsstring option"
  to' :: "jsstring option"

text \<open>
  A parsed JSON value. The property list of an object has distinct names
  (\<^verbatim>\<open>JSON.parse\<close> keeps one value per name).
\<close>

datatype json =
    JNull
  | JBool bool
  | JNum jsnumber
  | JStr jsstring
  | JArr "json list"
  | JObj "(jsstring \<times> json) list"

text \<open>
  \<^verbatim>\<open>WebServiceResponse<T>\<close>. The declared type of \<open>message\<close> is \<^verbatim>\<open>string\<close>, but
  \<^verbatim>\<open>makeWebServiceRequest\<close> stores the upstream \<^verbatim>\<open>error\<close> property there unchecked,
  so the field holds a JSON value.
\<close>

record 'a WebServiceResponse =
  success :: bool
  data :: "'a option"
  message :: "json option"

datatype error = EuPlatescError jsstring | TypeError

section \<open>The world outside the client\<close>

text \<open>
  What is thrown or what a promise is rejected with: an \<^verbatim>\<open>Error\<close> instance with its
  message, or any other value.
\<close>

datatype thrown = ErrorObject jsstring | NonError

text \<open>
  \<^verbatim>\<open>await fetch(...)\<close> either rejects or yields a response with its HTTP status and
  the outcome of \<^verbatim>\<open>await response.json()\<close>.
\<close>

datatype fetch_result = Rejected thrown | Response nat "thrown + json"

text \<open>
  The clock, the random source, the transport and two library functions whose text this
  development does not fix: \<^verbatim>\<open>Number.prototype.toFixed\<close> and the message of the
  \<^verbatim>\<open>TypeError\<close> that the \<^verbatim>\<open>in\<close> operator raises on a value that is not an object.
\<close>

record Runtime =
  Date_toISOString :: jsstring
  randomBytes :: "nat \<Rightarrow> bytes"
  fetch :: "fields \<Rightarrow> fetch_result"
  toFixed :: "jsnumber \<Rightarrow> nat \<Rightarrow> jsstring"
  in_TypeError_message :: "jsstring \<Rightarrow> json \<Rightarrow> jsstring"

definition ok :: "nat \<Rightarrow> bool" where
  "ok st \<longleftrightarrow> 200 \<le> st \<and> st \<le> 299"

text \<open>Truthiness of the optional inputs the builders test.\<close>

definition truthy_string :: "jsstring option \<Rightarrow> bool" where
  "truthy_string v = (case v of None \<Rightarrow> False | Some s \<Rightarrow> length s > 0)"

definition truthy_number :: "jsnumber option \<Rightarrow> bool" where
  "truthy_number v =
     (case v of
        None \<Rightarrow> False
      | Some (Finite r) \<Rightarrow> r \<noteq> 0
      | Some NegZero \<Rightarrow> False
      | Some NaN \<Rightarrow> False
      | Some _ \<Rightarrow> True)"

definition truthy_boolean :: "bool option \<Rightarrow> bool" where
  "truthy_boolean v = (v = Some True)"

text \<open>\<^verbatim>\<open>x || ''\<close> on an optional string.\<close>

definition or_empty :: "jsstring option \<Rightarrow> jsstring" where
  "or_empty v = (if truthy_string v then the v else js '''')"

text \<open>
  \<^verbatim>\<open>name in value\<close> for the three names the client probes (none is an array index or
  an inherited property), and \<^verbatim>\<open>value.name\<close> on an object.
\<close>

definition js_in :: "Runtime \<Rightarrow> jsstring \<Rightarrow> json \<Rightarrow> thrown + bool" where
  "js_in rt name v =
     (case v of
        JObj props \<Rightarrow> Inr (name \<in> set (map fst props))
      | JArr _ \<Rightarrow> Inr False
      | _ \<Rightarrow> Inl (ErrorObject (in_TypeError_message rt name v)))"

definition get_property :: "json \<Rightarrow> jsstring \<Rightarrow> json option" where
  "get_property v name = (case v of JObj props \<Rightarrow> map_of props name | _ \<Rightarrow> None)"

text \<open>\<^verbatim>\<open>data?.success\<close>: \<^verbatim>\<open>undefined\<close> when \<open>data\<close> is \<^verbatim>\<open>undefined\<close> or \<^verbatim>\<open>null\<close>.\<close>

definition optional_success :: "json option \<Rightarrow> json option" where
  "optional_success d =
     (case d of None \<Rightarrow> None | Some JNull \<Rightarrow> None | Some v \<Rightarrow> get_property v (js ''success''))"

section \<open>The client (\<^verbatim>\<open>EuPlatescClient\<close>)\<close>

subsection \<open>Timestamp, nonce and the two signers\<close>

definition generateTimestamp :: "Runtime \<Rightarrow> jsstring" where
  "generateTimestamp rt =
     take 14 (filter (\<lambda>u. u \<noteq> 0x2D \<and> u \<noteq> 0x54 \<and> u \<noteq> 0x3A) (Date_toISOString rt))"

definition generateNonce :: "Runtime \<Rightarrow> jsstring" where
  "generateNonce rt = toString_hex (randomBytes rt 32)"

definition Object_values :: "fields \<Rightarrow> jsstring list" where
  "Object_values dat = map snd dat"

text \<open>The loop of \<^verbatim>\<open>generateHash\<close> and \<^verbatim>\<open>generateUapiHash\<close> that builds \<^verbatim>\<open>hmacInput\<close>.\<close>

definition hmacInput :: "jsstring list \<Rightarrow> jsstring" where
  "hmacInput vs =
     foldl (\<lambda>acc v. acc @ (if length v > 0 then decimal (length v) @ v else js ''-'')) [] vs"

definition createHmac_md5_hex :: "bytes \<Rightarrow> jsstring \<Rightarrow> jsstring" where
  "createHmac_md5_hex key input = toString_hex (hmac_md5 key (utf8 input))"

definition generateHash :: "EuPlatescConfig \<Rightarrow> fields \<Rightarrow> jsstring" where
  "generateHash config dat =
     toUpperCase (createHmac_md5_hex (Buffer_from_hex (secretKey config))
                    (hmacInput (Object_values dat)))"

definition WebService_required :: jsstring where
  "WebService_required = js ''WebService configuration required for this operation''"

definition generateUapiHash :: "WebServiceConfig option \<Rightarrow> fields \<Rightarrow> error + jsstring" where
  "generateUapiHash wsConfig dat =
     (case wsConfig of
        None \<Rightarrow> Inl (EuPlatescError WebService_required)
      | Some ws \<Rightarrow>
          Inr (toUpperCase (createHmac_md5_hex (Buffer_from_hex (uapiKey ws))
                              (hmacInput (Object_values dat)))))"

text \<open>
  The signer as the specification words it: the concatenation, in set order, of the decimal
  length followed by the value for a non-empty value and of \<^verbatim>\<open>-\<close> for an empty one;
  HMAC-MD5 of it under the hex-decoded key; the digest in upper-case hexadecimal.
\<close>

definition spec_render :: "jsstring \<Rightarrow> jsstring" where
  "spec_render v = (if v = [] then js ''-'' else decimal (length v) @ v)"

definition spec_sign :: "jsstring list \<Rightarrow> jsstring \<Rightarrow> jsstring" where
  "spec_sign vs key =
     toUpperCase (toString_hex (hmac_md5 (Buffer_from_hex key)
                                   (utf8 (concat (map spec_render vs)))))"

subsection \<open>\<^verbatim>\<open>verifyResponse\<close>\<close>

text \<open>
  The callback is a map from names to strings. A name it lacks destructures to
  \<^verbatim>\<open>undefined\<close>, and \<^verbatim>\<open>generateHash\<close> then raises a \<^verbatim>\<open>TypeError\<close> at
  \<^verbatim>\<open>value.length\<close>. So a status is returned only when all its fields are strings,
  which is why the record \<open>TransactionStatus\<close> has no optional field.
\<close>

definition verified_names :: "jsstring list" where
  "verified_names =
     [js ''amount'', js ''curr'', js ''invoice_id'', js ''ep_id'', js ''merch_id'',
      js ''action'', js ''message'', js ''approval'', js ''timestamp'', js ''nonce'']"

definition verifyResponse ::
  "EuPlatescConfig \<Rightarrow> (jsstring \<rightharpoonup> jsstring) \<Rightarrow> error + TransactionStatus" where
  "verifyResponse config responseData =
     (let amount = responseData (js ''amount'');
          curr = responseData (js ''curr'');
          invoice_id = responseData (js ''invoice_id'');
          ep_id = responseData (js ''ep_id'');
          merch_id = responseData (js ''merch_id'');
          action = responseData (js ''action'');
          message = responseData (js ''message'');
          approval = responseData (js ''approval'');
          timestamp = responseData (js ''timestamp'');
          nonce = responseData (js ''nonce'');
          fp_hash = responseData (js ''fp_hash'')
      in if None \<in> set [amount, curr, invoice_id, ep_id, merch_id, action, message, approval,
                         timestamp, nonce]
         then Inl TypeError
         else
           let calculatedHash = generateHash config
                 [(js ''amount'', the amount), (js ''curr'', the curr),
                  (js ''invoice_id'', the invoice_id), (js ''ep_id'', the ep_id),
                  (js ''merch_id'', the merch_id), (js ''action'', the action),
                  (js ''message'', the message), (js ''approval'', the approval),
                  (js ''timestamp'', the timestamp), (js ''nonce'', the nonce)]
           in if Some calculatedHash \<noteq> fp_hash
              then Inl (EuPlatescError (js ''Invalid response signature''))
              else Inr \<lparr>epId = the ep_id, TransactionStatus.invoiceId = the invoice_id,
                        TransactionStatus.amount = the amount, currency = the curr,
                        status = the action, message = the message, approval = the approval,
                        timestamp = the timestamp, nonce = the nonce, fpHash = the fp_hash\<rparr>)"


text \<open>
  For stating properties of the verifier: the status that \<^verbatim>\<open>verifyResponse\<close> returns
  for a callback, and the callback that carries given values of the ten verified fields
  (in the order of \<open>verified_names\<close>) together with a signature.
\<close>

definition typed_status :: "(jsstring \<rightharpoonup> jsstring) \<Rightarrow> TransactionStatus" where
  "typed_status responseData =
     \<lparr>epId = the (responseData (js ''ep_id'')),
      TransactionStatus.invoiceId = the (responseData (js ''invoice_id'')),
      TransactionStatus.amount = the (responseData (js ''amount'')),
      currency = the (responseData (js ''curr'')),
      status = the (responseData (js ''action'')),
      message = the (responseData (js ''message'')),
      approval = the (responseData (js ''approval'')),
      timestamp = the (responseData (js ''timestamp'')),
      nonce = the (responseData (js ''nonce'')),
      fpHash = the (responseData (js ''fp_hash''))\<rparr>"

definition callback :: "jsstring list \<Rightarrow> jsstring \<Rightarrow> (jsstring \<rightharpoonup> jsstring)" where
  "callback values fp_hash = (map_of (zip verified_names values))(js ''fp_hash'' \<mapsto> fp_hash)"

text \<open>
  The signature of the ten values under the primary key, and the bytes that the HMAC
  authenticates for a sequence of values.
\<close>

definition sign_callback :: "EuPlatescConfig \<Rightarrow> jsstring list \<Rightarrow> jsstring" where
  "sign_callback config values = generateHash config (zip verified_names values)"

definition signed_message :: "jsstring list \<Rightarrow> bytes" where
  "signed_message values = utf8 (hmacInput values)"

subsection \<open>\<^verbatim>\<open>makeWebServiceRequest\<close>\<close>

text \<open>
  The result is paired with the list of form bodies the call has posted, so that ``no
  network call'' is the empty list. Everything thrown inside the \<^verbatim>\<open>try\<close> block reaches
  the \<^verbatim>\<open>catch\<close> clause, which is \<open>caught\<close>.
\<close>

definition caught :: "thrown \<Rightarrow> json WebServiceResponse" where
  "caught e =
     \<lparr>success = False, data = None,
      message = Some (JStr (case e of ErrorObject m \<Rightarrow> m
                                     | NonError \<Rightarrow> js ''Unknown error occurred''))\<rparr>"

definition makeWebServiceRequest ::
  "Runtime \<Rightarrow> fields \<Rightarrow> fields list \<times> json WebServiceResponse" where
  "makeWebServiceRequest rt dat =
     ([dat],
      (case fetch rt dat of
         Rejected e \<Rightarrow> caught e
       | Response st body \<Rightarrow>
           if \<not> ok st then
             \<lparr>success = False, data = None,
              message = Some (JStr (js ''HTTP error! status: '' @ decimal st))\<rparr>
           else
             (case body of
                Inl e \<Rightarrow> caught e
              | Inr result \<Rightarrow>
                  (case js_in rt (js ''error'') result of
                     Inl e \<Rightarrow> caught e
                   | Inr True \<Rightarrow>
                       \<lparr>success = False, data = None,
                        message = get_property result (js ''error'')\<rparr>
                   | Inr False \<Rightarrow>
                       (case js_in rt (js ''cards'') result of
                          Inl e \<Rightarrow> caught e
                        | Inr True \<Rightarrow> \<lparr>success = True, data = Some result, message = None\<rparr>
                        | Inr False \<Rightarrow>
                            (case js_in rt (js ''success'') result of
                               Inl e \<Rightarrow> caught e
                             | Inr False \<Rightarrow>
                                 \<lparr>success = True, data = Some result, message = None\<rparr>
                             | Inr True \<Rightarrow>
                                 \<lparr>success = True,
                                  data = get_property result (js ''success''),
                                  message = None\<rparr>))))))"

subsection \<open>The operation builders\<close>

text \<open>
  Each operation is an \<^verbatim>\<open>async\<close> function: \<open>Inl\<close> is a rejected promise, \<open>Inr\<close> the
  forms posted and the value the promise resolves to. For each operation \<open>op\<close>, \<open>op_data\<close>
  is its object literal \<^verbatim>\<open>data\<close>, the ordered field set it signs.
\<close>

definition not_configured :: "'a WebServiceResponse" where
  "not_configured = \<lparr>success = False, data = None, message = Some (JStr WebService_required)\<rparr>"

definition createPayment_data ::
  "Runtime \<Rightarrow> EuPlatescConfig \<Rightarrow> PaymentRequest \<Rightarrow> jsstring \<Rightarrow> jsstring \<Rightarrow> fields" where
  "createPayment_data rt config request =
     (\<lambda>timestamp nonce.
     [(js ''amount'', toFixed rt (PaymentRequest.amount request) 2),
      (js ''curr'', PaymentRequest.currency request),
      (js ''invoice_id'', PaymentRequest.invoiceId request),
      (js ''order_desc'', orderDescription request),
      (js ''merch_id'', merchantId config),
      (js ''timestamp'', timestamp),
      (js ''nonce'', nonce)]
     @ (if truthy_boolean (generateEpid request) then [(js ''generate_epid'', js ''1'')] else [])
     @ (if truthy_string (valability request)
        then [(js ''valability'', the (valability request))] else [])
     @ (if truthy_string (c2pId request) then [(js ''c2p_id'', the (c2pId request))] else [])
     @ (if truthy_string (c2pCid request) then [(js ''c2p_cid'', the (c2pCid request))] else [])
     @ (if truthy_string (lang request) then [(js ''lang'', the (lang request))] else []))"

definition checkStatus_data ::
  "EuPlatescConfig \<Rightarrow> CheckStatusRequest \<Rightarrow> jsstring \<Rightarrow> jsstring \<Rightarrow> fields" where
  "checkStatus_data config request =
     (\<lambda>timestamp nonce.
     [(js ''method'', js ''check_status''),
      (js ''mid'', merchantId config),
      (js ''timestamp'', timestamp),
      (js ''nonce'', nonce)]
     @ (if truthy_string (CheckStatusRequest.epid request)
        then [(js ''epid'', the (CheckStatusRequest.epid request))] else [])
     @ (if truthy_string (CheckStatusRequest.invoiceId request)
        then [(js ''invoice_id'', the (CheckStatusRequest.invoiceId request))] else []))"

definition checkStatus ::
  "Runtime \<Rightarrow> EuPlatescConfig \<Rightarrow> WebServiceConfig option \<Rightarrow> CheckStatusRequest
     \<Rightarrow> error + fields list \<times> json WebServiceResponse" where
  "checkStatus rt config wsConfig request =
     (if wsConfig = None then Inr ([], not_configured)
      else
        let timestamp = generateTimestamp rt;
            nonce = generateNonce rt;
            dat = checkStatus_data config request timestamp nonce;
            fpHash = generateHash config dat
        in Inr (makeWebServiceRequest rt (dat @ [(js ''fp_hash'', fpHash)])))"

definition cancelRecurring_data ::
  "WebServiceConfig \<Rightarrow> RecurringCancellationRequest \<Rightarrow> jsstring \<Rightarrow> jsstring \<Rightarrow> fields" where
  "cancelRecurring_data ws request =
     (\<lambda>timestamp nonce.
     [(js ''method'', js ''cancel_recurring''),
      (js ''ukey'', userKey ws),
      (js ''epid'', RecurringCancellationRequest.epid request),
      (js ''reason'', or_empty (RecurringCancellationRequest.reason request)),
      (js ''timestamp'', timestamp),
      (js ''nonce'', nonce)])"

definition cancelRecurring ::
  "Runtime \<Rightarrow> EuPlatescConfig \<Rightarrow> WebServiceConfig option \<Rightarrow> RecurringCancellationRequest
     \<Rightarrow> error + fields list \<times> json WebServiceResponse" where
  "cancelRecurring rt config wsConfig request =
     (if wsConfig = None then Inr ([], not_configured)
      else
        let timestamp = generateTimestamp rt;
            nonce = generateNonce rt;
            dat = cancelRecurring_data (the wsConfig) request timestamp nonce
        in case generateUapiHash wsConfig dat of
             Inl e \<Rightarrow> Inl e
           | Inr fpHash' \<Rightarrow> Inr (makeWebServiceRequest rt (dat @ [(js ''fp_hash'', fpHash')])))"

text \<open>
  \<^verbatim>\<open>{...response, data: response.success && response.data?.success === '1'}\<close>, the
  last step of \<^verbatim>\<open>refund\<close> and \<^verbatim>\<open>capture\<close>.
\<close>

definition boolean_result :: "json WebServiceResponse \<Rightarrow> bool WebServiceResponse" where
  "boolean_result response =
     \<lparr>success = success response,
      data = Some (success response \<and> optional_success (data response) = Some (JStr (js ''1''))),
      message = message response\<rparr>"

definition refund_data ::
  "Runtime \<Rightarrow> WebServiceConfig \<Rightarrow> RefundRequest \<Rightarrow> jsstring \<Rightarrow> jsstring \<Rightarrow> fields" where
  "refund_data rt ws request =
     (\<lambda>timestamp nonce.
     [(js ''method'', js ''refund''),
      (js ''ukey'', userKey ws),
      (js ''epid'', RefundRequest.epid request),
      (js ''amount'', toFixed rt (RefundRequest.amount request) 2),
      (js ''reason'', RefundRequest.reason request),
      (js ''timestamp'', timestamp),
      (js ''nonce'', nonce)])"

definition refund ::
  "Runtime \<Rightarrow> EuPlatescConfig \<Rightarrow> WebServiceConfig option \<Rightarrow> RefundRequest
     \<Rightarrow> error + fields list \<times> bool WebServiceResponse" where
  "refund rt config wsConfig request =
     (if wsConfig = None then Inr ([], not_configured)
      else
        let timestamp = generateTimestamp rt;
            nonce = generateNonce rt;
            dat = refund_data rt (the wsConfig) request timestamp nonce
        in case generateUapiHash wsConfig dat of
             Inl e \<Rightarrow> Inl e
           | Inr fpHash' \<Rightarrow>
               (case makeWebServiceRequest rt (dat @ [(js ''fp_hash'', fpHash')]) of
                  (sent, response) \<Rightarrow> Inr (sent, boolean_result response)))"

definition capture_data ::
  "Runtime \<Rightarrow> WebServiceConfig \<Rightarrow> CaptureRequest \<Rightarrow> jsstring \<Rightarrow> jsstring \<Rightarrow> fields" where
  "capture_data rt ws request =
     (\<lambda>timestamp nonce.
     [(js ''method'',
       if truthy_number (CaptureRequest.amount request)
       then js ''partial_capture'' else js ''capture''),
      (js ''ukey'', userKey ws),
      (js ''epid'', CaptureRequest.epid request)]
     @ (if truthy_number (CaptureRequest.amount request)
        then [(js ''amount'', toFixed rt (the (CaptureRequest.amount request)) 2)] else [])
     @ [(js ''timestamp'', timestamp),
        (js ''nonce'', nonce)])"

definition capture ::
  "Runtime \<Rightarrow> EuPlatescConfig \<Rightarrow> WebServiceConfig option \<Rightarrow> CaptureRequest
     \<Rightarrow> error + fields list \<times> bool WebServiceResponse" where
  "capture rt config wsConfig request =
     (if wsConfig = None then Inr ([], not_configured)
      else
        let timestamp = generateTimestamp rt;
            nonce = generateNonce rt;
            dat = capture_data rt (the wsConfig) request timestamp nonce
        in case generateUapiHash wsConfig dat of
             Inl e \<Rightarrow> Inl e
           | Inr fpHash' \<Rightarrow>
               (case makeWebServiceRequest rt (dat @ [(js ''fp_hash'', fpHash')]) of
                  (sent, response) \<Rightarrow> Inr (sent, boolean_result response)))"

definition checkMerchantInfo_data :: "EuPlatescConfig \<Rightarrow> jsstring \<Rightarrow> jsstring \<Rightarrow> fields" where
  "checkMerchantInfo_data config =
     (\<lambda>timestamp nonce.
     [(js ''method'', js ''check_mid''),
      (js ''mid'', merchantId config),
      (js ''timestamp'', timestamp),
      (js ''nonce'', nonce)])"

definition checkMerchantInfo ::
  "Runtime \<Rightarrow> EuPlatescConfig \<Rightarrow> WebServiceConfig option
     \<Rightarrow> error + fields list \<times> json WebServiceResponse" where
  "checkMerchantInfo rt config wsConfig =
     (if wsConfig = None then Inr ([], not_configured)
      else
        let timestamp = generateTimestamp rt;
            nonce = generateNonce rt;
            dat = checkMerchantInfo_data config timestamp nonce;
            fpHash = generateHash config dat
        in Inr (makeWebServiceRequest rt (dat @ [(js ''fp_hash'', fpHash)])))"

definition getCardArt_data ::
  "WebServiceConfig \<Rightarrow> jsstring \<Rightarrow> jsstring \<Rightarrow> jsstring \<Rightarrow> fields" where
  "getCardArt_data ws =
     (\<lambda>epid timestamp nonce.
     [(js ''method'', js ''cardart''),
      (js ''ukey'', userKey ws),
      (js ''ep_id'', epid),
      (js ''timestamp'', timestamp),
      (js ''nonce'', nonce)])"

definition getCardArt ::
  "Runtime \<Rightarrow> EuPlatescConfig \<Rightarrow> WebServiceConfig option \<Rightarrow> jsstring
     \<Rightarrow> error + fields list \<times> json WebServiceResponse" where
  "getCardArt rt config wsConfig =
     (\<lambda>epid.
     (if wsConfig = None then Inr ([], not_configured)
      else
        let timestamp = generateTimestamp rt;
            nonce = generateNonce rt;
            dat = getCardArt_data (the wsConfig) epid timestamp nonce
        in case generateUapiHash wsConfig dat of
             Inl e \<Rightarrow> Inl e
           | Inr fpHash' \<Rightarrow> Inr (makeWebServiceRequest rt (dat @ [(js ''fp_hash'', fpHash')]))))"

definition getSavedCards_data ::
  "EuPlatescConfig \<Rightarrow> jsstring \<Rightarrow> jsstring \<Rightarrow> jsstring \<Rightarrow> fields" where
  "getSavedCards_data config =
     (\<lambda>c2pId timestamp nonce.
     [(js ''method'', js ''c2p_cards''),
      (js ''mid'', merchantId config),
      (js ''c2p_id'', c2pId),
      (js ''timestamp'', timestamp),
      (js ''nonce'', nonce)])"

definition getSavedCards ::
  "Runtime \<Rightarrow> EuPlatescConfig \<Rightarrow> WebServiceConfig option \<Rightarrow> jsstring
     \<Rightarrow> error + fields list \<times> json WebServiceResponse" where
  "getSavedCards rt config wsConfig =
     (\<lambda>c2pId.
     (if wsConfig = None then Inr ([], not_configured)
      else
        let timestamp = generateTimestamp rt;
            nonce = generateNonce rt;
            dat = getSavedCards_data config c2pId timestamp nonce;
            fpHash = generateHash config dat
        in Inr (makeWebServiceRequest rt (dat @ [(js ''fp_hash'', fpHash)]))))"

definition getCapturedTotals_data ::
  "WebServiceConfig \<Rightarrow> CapturedTotalsOptions \<Rightarrow> jsstring \<Rightarrow> jsstring \<Rightarrow> fields" where
  "getCapturedTotals_data ws options =
     (\<lambda>timestamp nonce.
     [(js ''method'', js ''captured_total''),
      (js ''ukey'', userKey ws),
      (js ''mids'', join (js '','') (mids options)),
      (js ''from'', or_empty (CapturedTotalsOptions.from' options)),
      (js ''to'', or_empty (CapturedTotalsOptions.to' options)),
      (js ''timestamp'', timestamp),
      (js ''nonce'', nonce)])"

definition getCapturedTotals ::
  "Runtime \<Rightarrow> EuPlatescConfig \<Rightarrow> WebServiceConfig option \<Rightarrow> CapturedTotalsOptions
     \<Rightarrow> error + fields list \<times> json WebServiceResponse" where
  "getCapturedTotals rt config wsConfig options =
     (if wsConfig = None then Inr ([], not_configured)
      else
        let timestamp = generateTimestamp rt;
            nonce = generateNonce rt;
            dat = getCapturedTotals_data (the wsConfig) options timestamp nonce
        in case generateUapiHash wsConfig dat of
             Inl e \<Rightarrow> Inl e
           | Inr fpHash' \<Rightarrow> Inr (makeWebServiceRequest rt (dat @ [(js ''fp_hash'', fpHash')])))"

definition getInvoices_data ::
  "EuPlatescConfig \<Rightarrow> WebServiceConfig \<Rightarrow> InvoicesOptions \<Rightarrow> jsstring \<Rightarrow> jsstring \<Rightarrow> fields"
  where
  "getInvoices_data config ws options =
     (\<lambda>timestamp nonce.
     [(js ''method'', js ''invoices''),
      (js ''ukey'', userKey ws),
      (js ''mid'', merchantId config),
      (js ''from'', or_empty (InvoicesOptions.from' options)),
      (js ''to'', or_empty (InvoicesOptions.to' options)),
      (js ''timestamp'', timestamp),
      (js ''nonce'', nonce)])"

definition getInvoices ::
  "Runtime \<Rightarrow> EuPlatescConfig \<Rightarrow> WebServiceConfig option \<Rightarrow> InvoicesOptions
     \<Rightarrow> error + fields list \<times> json WebServiceResponse" where
  "getInvoices rt config wsConfig options =
     (if wsConfig = None then Inr ([], not_configured)
      else
        let timestamp = generateTimestamp rt;
            nonce = generateNonce rt;
            dat = getInvoices_data config (the wsConfig) options timestamp nonce
        in case generateUapiHash wsConfig dat of
             Inl e \<Rightarrow> Inl e
           | Inr fpHash' \<Rightarrow> Inr (makeWebServiceRequest rt (dat @ [(js ''fp_hash'', fpHash')])))"

definition getInvoiceTransactions_data ::
  "WebServiceConfig \<Rightarrow> jsstring \<Rightarrow> jsstring \<Rightarrow> jsstring \<Rightarrow> fields" where
  "getInvoiceTransactions_data ws =
     (\<lambda>invoiceNumber timestamp nonce.
     [(js ''method'', js ''invoice''),
      (js ''ukey'', userKey ws),
      (js ''invoice'', invoiceNumber),
      (js ''timestamp'', timestamp),
      (js ''nonce'', nonce)])"

definition getInvoiceTransactions ::
  "Runtime \<Rightarrow> EuPlatescConfig \<Rightarrow> WebServiceConfig option \<Rightarrow> jsstring
     \<Rightarrow> error + fields list \<times> json WebServiceResponse" where
  "getInvoiceTransactions rt config wsConfig invoiceNumber =
     (if wsConfig = None then Inr ([], not_configured)
      else
        let timestamp = generateTimestamp rt;
            nonce = generateNonce rt;
            dat = getInvoiceTransactions_data (the wsConfig) invoiceNumber timestamp nonce
        in case generateUapiHash wsConfig dat of
             Inl e \<Rightarrow> Inl e
           | Inr fpHash' \<Rightarrow> Inr (makeWebServiceRequest rt (dat @ [(js ''fp_hash'', fpHash')])))"


subsection \<open>Reading an operation's outcome\<close>

text \<open>The value the promise resolves to (\<open>None\<close> when it is rejected).\<close>

definition resolved :: "error + fields list \<times> 'a \<Rightarrow> 'a option" where
  "resolved outcome = (case outcome of Inl e \<Rightarrow> None | Inr (sent, r) \<Rightarrow> Some r)"

text \<open>
  The invariant the specification gives for a uniform result: a success carries a payload
  and no message, a failure a message and no payload.
\<close>

definition uniform :: "'a WebServiceResponse \<Rightarrow> bool" where
  "uniform r \<longleftrightarrow>
     (success r \<and> data r \<noteq> None \<and> message r = None)
     \<or> (\<not> success r \<and> data r = None \<and> message r \<noteq> None)"

section \<open>Auxiliary definitions\<close>

text \<open>The number a string of decimal digits (as bytes) denotes.\<close>

definition digits_value :: "bytes \<Rightarrow> nat" where
  "digits_value ds = foldl (\<lambda>acc d. 10 * acc + (unat d - 48)) 0 ds"

text \<open>
  The number of UTF-16 code units that a byte of a UTF-8 rendering stands for: one for
  the first byte of a sequence of one, two or three bytes, two for the first byte of a
  sequence of four, none for a continuation byte.
\<close>

definition byte_units :: "8 word \<Rightarrow> nat" where
  "byte_units b = (if b < 0x80 then 1 else if b < 0xC0 then 0 else if b < 0xF0 then 1 else 2)"

definition units :: "bytes \<Rightarrow> nat" where
  "units bs = sum_list (map byte_units bs)"

text \<open>Concrete data for the examples.\<close>

definition example_config :: EuPlatescConfig where
  "example_config =
     \<lparr>merchantId = js ''M1'', secretKey = js ''00112233445566778899AABBCCDDEEFF'',
      testMode = None\<rparr>"

definition example_wsConfig :: WebServiceConfig where
  "example_wsConfig = \<lparr>userKey = js ''U1'', uapiKey = js ''FFEEDDCCBBAA99887766554433221100''\<rparr>"

definition example_values :: "jsstring list" where
  "example_values =
     [js ''10.00'', js ''RON'', js ''INV1'', js ''EP1'', js ''M1'', js ''0'', js ''Approved'',
      js ''A1'', js ''20240101120000'', js ''abcd'']"

text \<open>
  A runtime for the examples: a fixed clock and random source, a transport that answers
  every request with the given reply, and amounts that render as \<^verbatim>\<open>50.00\<close>.
\<close>

definition example_runtime :: "fetch_result \<Rightarrow> Runtime" where
  "example_runtime reply =
     \<lparr>Date_toISOString = js ''2024-01-01T12:00:00.000Z'',
      randomBytes = (\<lambda>n. replicate n 0xAB),
      fetch = (\<lambda>form. reply),
      toFixed = (\<lambda>x digits. js ''50.00''),
      in_TypeError_message = (\<lambda>name v. js ''Cannot use 'in' operator'')\<rparr>"

text \<open>
  A callback whose \<^verbatim>\<open>message\<close> ends in the first half of a surrogate pair, and the same
  callback with that code unit replaced by another one.
\<close>

definition truncated_values :: "jsstring list" where
  "truncated_values = example_values[6 := js ''Approved'' @ [0xD83D]]"

definition altered_values :: "jsstring list" where
  "altered_values = truncated_values[6 := js ''Approved'' @ [0xD83E]]"

section \<open>Basic facts\<close>

lemma unat_of_char16: "unat (of_char x :: 16 word) = of_char x"
proof -
  have "(of_char x :: nat) = of_char x mod 256" by simp
  also have "\<dots> < 256" by (rule mod_less_divisor) simp
  finally have "(of_char x :: nat) < 256" .
  then have lt: "(of_char x :: nat) < 2 ^ 16" by (rule less_trans) simp
  have "unat (of_char x :: 16 word) = unat (of_nat (of_char x) :: 16 word)"
    by (simp only: of_nat_of_char)
  also have "\<dots> = of_char x mod 2 ^ LENGTH(16)"
    by (simp only: unat_of_nat)
  also have "\<dots> = of_char x"
    using lt by simp
  finally show ?thesis .
qed

lemma of_char_word16_inj: "(of_char c :: 16 word) = of_char d \<longleftrightarrow> c = d"
proof
  assume "(of_char c :: 16 word) = of_char d"
  then have "unat (of_char c :: 16 word) = unat (of_char d :: 16 word)" by (rule arg_cong)
  then have "(of_char c :: nat) = of_char d"
    by (simp only: unat_of_char16)
  then show "c = d" by simp
qed simp

lemma js_eq_iff [simp]: "js a = js b \<longleftrightarrow> a = b"
  unfolding js_def
  by (auto simp: list_eq_iff_nth_eq of_char_word16_inj)

lemma foldl_append_concat:
  "foldl (\<lambda>acc v. acc @ f v) a vs = a @ concat (map f vs)"
  by (induction vs arbitrary: a) simp_all

lemma hmacInput_concat: "hmacInput vs = concat (map spec_render vs)"
  unfolding hmacInput_def foldl_append_concat
  by (induction vs) (simp_all add: spec_render_def)

lemma generateHash_spec_sign:
  "generateHash config dat = spec_sign (Object_values dat) (secretKey config)"
  by (simp add: generateHash_def spec_sign_def createHmac_md5_hex_def hmacInput_concat)

lemma generateUapiHash_spec_sign:
  "generateUapiHash (Some ws) dat = Inr (spec_sign (Object_values dat) (uapiKey ws))"
  by (simp add: generateUapiHash_def spec_sign_def createHmac_md5_hex_def hmacInput_concat)

section \<open>UTF-8 rendering and decimal length prefixes\<close>

lemma utf8_codepoint_length:
  "length (utf8_codepoint c) = (if c < 0x80 then 1 else if c < 0x800 then 2 else if c < 0x10000 then 3 else 4)"
  by (simp add: utf8_codepoint_def)

lemma unat16_bound: "unat (u :: 16 word) < 65536"
  using unsigned_less [of u, where 'a = nat] by simp

lemma utf8_length_lower: "length us \<le> length (utf8 us)"
  by (induction us rule: utf8.induct) (auto simp: utf8_codepoint_length)

lemma utf8_length_upper: "length (utf8 us) \<le> 3 * length us"
  using unat16_bound
  by (induction us rule: utf8.induct) (auto simp: utf8_codepoint_length)

lemma utf8_append_right:
  "b \<noteq> [] \<Longrightarrow> \<not> isLowSurrogate (hd b) \<Longrightarrow> utf8 (a @ b) = utf8 a @ utf8 b"
proof (induction a rule: utf8.induct)
  case 1
  then show ?case by simp
next
  case (2 u)
  then show ?case by (cases b) auto
next
  case (3 u l us)
  then show ?case by auto
qed

lemma utf8_append_left:
  "a \<noteq> [] \<Longrightarrow> \<not> isHighSurrogate (last a) \<Longrightarrow> utf8 (a @ b) = utf8 a @ utf8 b"
proof (induction a rule: utf8.induct)
  case 1
  then show ?case by simp
next
  case (2 u)
  then show ?case by (cases b) auto
next
  case (3 u l us)
  then show ?case by (cases "us = []") auto
qed

lemma one_digit: "n < 10 \<Longrightarrow> n \<in> {0, 1, 2, 3, 4, 5, 6, 7, 8, 9 :: nat}"
  by auto

lemma digit_range:
  "n < 10 \<Longrightarrow> 0x30 \<le> (0x30 + of_nat n :: 16 word) \<and> (0x30 + of_nat n :: 16 word) \<le> 0x39"
  by (drule one_digit) auto

lemma decimal_digits: "u \<in> set (decimal n) \<Longrightarrow> 0x30 \<le> u \<and> u \<le> 0x39"
proof (induction n rule: decimal.induct)
  case (1 n)
  show ?case
  proof (cases "n < 10")
    case True
    with "1.prems" have "u = 0x30 + of_nat n" by (simp add: decimal.simps)
    with True digit_range show ?thesis by blast
  next
    case False
    with "1.prems" have "u \<in> set (decimal (n div 10)) \<or> u = 0x30 + of_nat (n mod 10)"
      by (subst (asm) decimal.simps) auto
    then show ?thesis
    proof
      assume "u \<in> set (decimal (n div 10))"
      with False "1.IH" show ?thesis by blast
    next
      assume "u = 0x30 + of_nat (n mod 10)"
      moreover have "n mod 10 < 10" by simp
      ultimately show ?thesis using digit_range by blast
    qed
  qed
qed

lemma decimal_nonempty: "decimal n \<noteq> []"
  by (subst decimal.simps) simp


lemma digit_not_surrogate:
  "0x30 \<le> (u :: 16 word) \<and> u \<le> 0x39 \<Longrightarrow> \<not> isHighSurrogate u \<and> \<not> isLowSurrogate u"
  by (auto simp: isHighSurrogate_def isLowSurrogate_def word_le_nat_alt)

lemma decimal_last_not_high: "\<not> isHighSurrogate (last (decimal n))"
  using decimal_digits [of "last (decimal n)" n] decimal_nonempty [of n] digit_not_surrogate
  by (meson last_in_set)

lemma decimal_hd_not_low: "\<not> isLowSurrogate (hd (decimal n))"
  using decimal_digits [of "hd (decimal n)" n] decimal_nonempty [of n] digit_not_surrogate
  by (meson hd_in_set)

lemma utf8_digit:
  assumes "n < 10"
  shows "utf8 [0x30 + of_nat n] = [0x30 + of_nat n]"
  using one_digit [OF assms]
  by (auto simp: isHighSurrogate_def isLowSurrogate_def utf8_codepoint_def)

lemma digit_byte_value:
  assumes "n < 10"
  shows "unat (0x30 + of_nat n :: 8 word) - 48 = n"
  using one_digit [OF assms] by auto

lemma utf8_decimal:
  "utf8 (decimal n) =
     (if n < 10 then [0x30 + of_nat n]
      else utf8 (decimal (n div 10)) @ [0x30 + of_nat (n mod 10)])"
proof (cases "n < 10")
  case True
  then show ?thesis by (simp add: decimal.simps [of n] utf8_digit del: utf8.simps)
next
  case False
  have "utf8 (decimal n) = utf8 (decimal (n div 10) @ [0x30 + of_nat (n mod 10)])"
    using False by (simp add: decimal.simps [of n])
  also have "\<dots> = utf8 (decimal (n div 10)) @ utf8 [0x30 + of_nat (n mod 10)]"
    by (rule utf8_append_left) (simp_all add: decimal_nonempty decimal_last_not_high)
  also have "utf8 [0x30 + of_nat (n mod 10) :: 16 word] = [0x30 + of_nat (n mod 10)]"
    by (rule utf8_digit) simp
  finally show ?thesis using False by simp
qed

lemma digits_value_snoc:
  "digits_value (ds @ [d]) = 10 * digits_value ds + (unat d - 48)"
  by (simp add: digits_value_def)

lemma digits_value_append:
  "digits_value (xs @ ys) = digits_value xs * 10 ^ length ys + digits_value ys"
proof (induction ys rule: rev_induct)
  case Nil
  then show ?case by (simp add: digits_value_def)
next
  case (snoc y ys)
  have "digits_value (xs @ ys @ [y]) = 10 * digits_value (xs @ ys) + (unat y - 48)"
    using digits_value_snoc [of "xs @ ys" y] by simp
  then show ?case
    by (simp add: snoc.IH digits_value_snoc algebra_simps)
qed

lemma digits_value_decimal: "digits_value (utf8 (decimal n)) = n"
proof (induction n rule: decimal.induct)
  case (1 n)
  show ?case
  proof (cases "n < 10")
    case True
    then show ?thesis
      using digits_value_snoc [of "[]" "0x30 + of_nat n"]
      by (simp add: utf8_decimal [of n] digit_byte_value digits_value_def)
  next
    case False
    then have "digits_value (utf8 (decimal n)) =
        10 * digits_value (utf8 (decimal (n div 10))) + (unat (0x30 + of_nat (n mod 10) :: 8 word) - 48)"
      by (simp add: utf8_decimal [of n] digits_value_snoc)
    also have "\<dots> = 10 * (n div 10) + n mod 10"
      using False "1.IH" by (simp add: digit_byte_value)
    finally show ?thesis by simp
  qed
qed

lemma utf8_decimal_nonempty: "utf8 (decimal n) \<noteq> []"
  by (subst utf8_decimal) simp

lemma decimal_prefix_tenfold:
  assumes "utf8 (decimal m) = utf8 (decimal n) @ us" and "us \<noteq> []"
  shows "10 * n \<le> m"
proof -
  have "m = digits_value (utf8 (decimal n) @ us)"
    using assms(1) digits_value_decimal [of m] by simp
  also have "\<dots> = n * 10 ^ length us + digits_value us"
    by (simp add: digits_value_append digits_value_decimal)
  finally have m: "n * 10 ^ length us \<le> m" by simp
  have "10 * n = n * 10 ^ 1" by simp
  also have "\<dots> \<le> n * 10 ^ length us"
    using assms(2) by (intro mult_le_mono2 power_increasing) (simp_all add: Suc_leI)
  also note m
  finally show ?thesis .
qed

lemma length_prefix_not_shorter:
  assumes eq: "utf8 (decimal n) @ A = utf8 (decimal m) @ B"
    and A: "length A \<le> 3 * n" and B: "m \<le> length B" and n: "0 < n"
  shows "length (utf8 (decimal m)) \<le> length (utf8 (decimal n))"
proof (rule ccontr)
  assume "\<not> ?thesis"
  then have lt: "length (utf8 (decimal n)) < length (utf8 (decimal m))" by simp
  from eq obtain us where
    "(utf8 (decimal n) = utf8 (decimal m) @ us \<and> us @ A = B)
     \<or> (utf8 (decimal n) @ us = utf8 (decimal m) \<and> A = us @ B)"
    by (auto simp: append_eq_append_conv2)
  with lt have us: "utf8 (decimal m) = utf8 (decimal n) @ us" "A = us @ B" "us \<noteq> []"
    by auto
  from decimal_prefix_tenfold [OF us(1) us(3)] have "10 * n \<le> m" .
  moreover from us(2) have "length B \<le> length A" by simp
  ultimately show False using A B n by simp
qed

lemma utf8_spec_render:
  "utf8 (spec_render v) = (if v = [] then [0x2D] else utf8 (decimal (length v)) @ utf8 v)"
proof (cases "v = []")
  case True
  then show ?thesis
    by (simp add: spec_render_def js_def utf8_codepoint_def isHighSurrogate_def isLowSurrogate_def)
next
  case False
  then show ?thesis
    by (simp add: spec_render_def utf8_append_left decimal_nonempty decimal_last_not_high)
qed

lemma spec_render_injective:
  assumes "utf8 (spec_render v) = utf8 (spec_render w)"
  shows "length v = length w \<and> utf8 v = utf8 w"
proof (cases "v = [] \<or> w = []")
  case True
  have two: "2 \<le> length (utf8 (spec_render x))" if "x \<noteq> []" for x :: jsstring
  proof -
    have "1 \<le> length (utf8 (decimal (length x)))"
      using utf8_decimal_nonempty [of "length x"] by (simp add: Suc_leI)
    moreover have "1 \<le> length (utf8 x)"
      using that utf8_length_lower [of x] by (cases x) simp_all
    ultimately show ?thesis using that by (simp add: utf8_spec_render)
  qed
  have one: "length (utf8 (spec_render [])) = 1"
    by (simp add: utf8_spec_render)
  from assms have "length (utf8 (spec_render v)) = length (utf8 (spec_render w))" by simp
  with True two [of v] two [of w] one have "v = [] \<and> w = []"
    by (cases "v = []"; cases "w = []") simp_all
  then show ?thesis by simp
next
  case False
  then have v: "v \<noteq> []" and w: "w \<noteq> []" by simp_all
  let ?n = "length v" and ?m = "length w"
  from assms v w have eq: "utf8 (decimal ?n) @ utf8 v = utf8 (decimal ?m) @ utf8 w"
    by (simp add: utf8_spec_render)
  have "length (utf8 (decimal ?m)) \<le> length (utf8 (decimal ?n))"
    using eq utf8_length_upper [of v] utf8_length_lower [of w] v
    by (intro length_prefix_not_shorter [of ?n "utf8 v" ?m "utf8 w"]) simp_all
  moreover have "length (utf8 (decimal ?n)) \<le> length (utf8 (decimal ?m))"
    using eq [symmetric] utf8_length_upper [of w] utf8_length_lower [of v] w
    by (intro length_prefix_not_shorter [of ?m "utf8 w" ?n "utf8 v"]) simp_all
  ultimately have "length (utf8 (decimal ?n)) = length (utf8 (decimal ?m))" by simp
  with eq have "utf8 (decimal ?n) = utf8 (decimal ?m)" and "utf8 v = utf8 w"
    by simp_all
  then show ?thesis
    by (metis digits_value_decimal)
qed

section \<open>The signed message\<close>

lemma spec_render_head:
  "spec_render v \<noteq> [] \<and> \<not> isLowSurrogate (hd (spec_render v))"
  using decimal_nonempty [of "length v"] decimal_hd_not_low [of "length v"]
  by (simp add: spec_render_def js_def isLowSurrogate_def)

lemma concat_render_head:
  "concat (map spec_render vs) \<noteq> [] \<Longrightarrow> \<not> isLowSurrogate (hd (concat (map spec_render vs)))"
  using spec_render_head by (cases vs) simp_all

lemma utf8_concat_render:
  "utf8 (concat (map spec_render vs)) = concat (map (\<lambda>v. utf8 (spec_render v)) vs)"
proof (induction vs)
  case Nil
  then show ?case by simp
next
  case (Cons v vs)
  show ?case
  proof (cases "concat (map spec_render vs) = []")
    case True
    with Cons.IH have "concat (map (\<lambda>v. utf8 (spec_render v)) vs) = []"
      by (simp only: utf8.simps)
    with True show ?thesis
      by (simp only: list.map concat.simps append_Nil2)
  next
    case False
    then have "utf8 (spec_render v @ concat (map spec_render vs))
        = utf8 (spec_render v) @ utf8 (concat (map spec_render vs))"
      by (intro utf8_append_right concat_render_head)
    with Cons.IH show ?thesis by simp
  qed
qed

lemma message_bytes: "utf8 (hmacInput vs) = concat (map (\<lambda>v. utf8 (spec_render v)) vs)"
  by (simp only: hmacInput_concat utf8_concat_render)

lemma message_bytes_update:
  assumes "i < length vs"
  shows "utf8 (hmacInput (vs[i := v])) =
           concat (map (\<lambda>v. utf8 (spec_render v)) (take i vs)) @ utf8 (spec_render v)
           @ concat (map (\<lambda>v. utf8 (spec_render v)) (drop (Suc i) vs))"
  using assms by (simp add: message_bytes upd_conv_take_nth_drop)

lemma single_field_message:
  assumes "i < length vs"
    and "utf8 (hmacInput (vs[i := v])) = utf8 (hmacInput vs)"
  shows "length v = length (vs ! i) \<and> utf8 v = utf8 (vs ! i)"
proof -
  have "vs = vs[i := vs ! i]" by simp
  then have "utf8 (hmacInput vs) = utf8 (hmacInput (vs[i := vs ! i]))" by simp
  with assms have "utf8 (spec_render v) = utf8 (spec_render (vs ! i))"
    by (simp only: message_bytes_update [OF assms(1)] same_append_eq append_same_eq)
  then show ?thesis by (rule spec_render_injective)
qed

section \<open>Facts about the verifier\<close>

lemma md5_length: "length (md5 m) = 16"
  by (simp add: md5_def le_bytes_def split: prod.split)

lemma toString_hex_length: "length (toString_hex bs) = 2 * length bs"
  by (induction bs) (simp_all add: toString_hex_def)

lemma hmac_md5_length: "length (hmac_md5 key msg) = 16"
  by (simp add: hmac_md5_def Let_def md5_length)

lemma generateHash_length: "length (generateHash config dat) = 32"
  by (simp add: generateHash_def createHmac_md5_hex_def toUpperCase_def toString_hex_length
      hmac_md5_length)

lemma verifyResponse_eq:
  "verifyResponse config responseData =
     (if \<exists>name \<in> set verified_names. responseData name = None then Inl TypeError
      else if responseData (js ''fp_hash'')
                = Some (generateHash config
                          (map (\<lambda>name. (name, the (responseData name))) verified_names))
           then Inr (typed_status responseData)
           else Inl (EuPlatescError (js ''Invalid response signature'')))"
  by (auto simp: verifyResponse_def verified_names_def typed_status_def Let_def)

lemma length_ten:
  "length vs = 10 \<Longrightarrow> \<exists>a b c d e f g h i j. vs = [a, b, c, d, e, f, g, h, i, j]"
  by (auto simp: eval_nat_numeral length_Suc_conv)

lemma callback_fp_hash: "callback values h (js ''fp_hash'') = Some h"
  by (simp add: callback_def)

lemma callback_fields:
  assumes "length values = 10"
  shows "map (\<lambda>name. (name, the (callback values h name))) verified_names
           = zip verified_names values"
    and "\<not> (\<exists>name \<in> set verified_names. callback values h name = None)"
proof -
  from length_ten [OF assms] obtain a b c d e f g k i j
    where "values = [a, b, c, d, e, f, g, k, i, j]" by blast
  then show "map (\<lambda>name. (name, the (callback values h name))) verified_names
           = zip verified_names values"
    and "\<not> (\<exists>name \<in> set verified_names. callback values h name = None)"
    by (simp_all add: callback_def verified_names_def)
qed

lemma verifyResponse_callback:
  assumes "length values = 10"
  shows "verifyResponse config (callback values h) =
           (if h = sign_callback config values then Inr (typed_status (callback values h))
            else Inl (EuPlatescError (js ''Invalid response signature'')))"
  using callback_fields [OF assms, of h]
  by (auto simp: verifyResponse_eq callback_fp_hash sign_callback_def)

lemma length_verified_names: "length verified_names = 10"
  by (simp add: verified_names_def)

lemma Object_values_zip:
  "length values = 10 \<Longrightarrow> Object_values (zip verified_names values) = values"
  by (simp add: Object_values_def length_verified_names)

lemma sign_callback_message:
  assumes "length xs = 10" and "length ys = 10" and "signed_message xs = signed_message ys"
  shows "sign_callback config xs = sign_callback config ys"
  using assms
  by (simp add: sign_callback_def generateHash_def createHmac_md5_hex_def Object_values_zip
      signed_message_def)

section \<open>The canonical signer\<close>

text \<open>
  Claim C1. For every ordered field set and key, the signature that \<^verbatim>\<open>generateHash\<close>
  (primary key) and \<^verbatim>\<open>generateUapiHash\<close> (secondary key) compute is the one the
  specification describes: the values are concatenated in set order, each non-empty value
  preceded by its decimal length and each empty value replaced by \<^verbatim>\<open>-\<close>; the
  concatenation is authenticated with HMAC-MD5 under the hex-decoded key; the digest is
  rendered in upper-case hexadecimal.
\<close>

theorem signer_is_canonical:
  "generateHash config dat = spec_sign (Object_values dat) (secretKey config)
   \<and> generateUapiHash (Some ws) dat = Inr (spec_sign (Object_values dat) (uapiKey ws))"
  by (simp only: generateHash_spec_sign generateUapiHash_spec_sign)

section \<open>The response verifier\<close>

text \<open>
  Claim C2. For every callback field map, \<^verbatim>\<open>verifyResponse\<close> recomputes the canonical
  signature over exactly the ten fields amount, curr, invoice_id, ep_id, merch_id, action,
  message, approval, timestamp, nonce, in this order, under the primary key, and compares
  it by string equality (so case-sensitively) with the map's \<^verbatim>\<open>fp_hash\<close>. It returns the
  typed status only when they are equal; on any mismatch it throws the
  \<^verbatim>\<open>EuPlatescError\<close> ``Invalid response signature''. A callback that lacks one of the
  ten fields makes it throw as well (a \<^verbatim>\<open>TypeError\<close>), so it never returns a value for
  a callback it has not authenticated.
\<close>

theorem verifyResponse_authenticates:
  "verifyResponse config responseData =
     (if \<exists>name \<in> set verified_names. responseData name = None then Inl TypeError
      else if responseData (js ''fp_hash'')
                = Some (spec_sign (map (\<lambda>name. the (responseData name)) verified_names)
                          (secretKey config))
           then Inr (typed_status responseData)
           else Inl (EuPlatescError (js ''Invalid response signature'')))"
  by (simp add: verifyResponse_eq generateHash_spec_sign Object_values_def comp_def)

theorem verifyResponse_authenticates_witness:
  "verifyResponse example_config
     (callback example_values (sign_callback example_config example_values))
     = Inr \<lparr>epId = js ''EP1'', TransactionStatus.invoiceId = js ''INV1'',
            TransactionStatus.amount = js ''10.00'', currency = js ''RON'', status = js ''0'',
            message = js ''Approved'', approval = js ''A1'', timestamp = js ''20240101120000'',
            nonce = js ''abcd'', fpHash = sign_callback example_config example_values\<rparr>
   \<and> verifyResponse example_config (callback example_values (js ''0123456789ABCDEF''))
     = Inl (EuPlatescError (js ''Invalid response signature''))
   \<and> verifyResponse example_config (callback (butlast example_values) (js ''0123456789ABCDEF''))
     = Inl TypeError"
proof -
  have len: "length (spec_sign vs key) = 32" for vs key
    by (simp add: spec_sign_def toUpperCase_def toString_hex_length hmac_md5_length)
  have differ: "js ''0123456789ABCDEF'' \<noteq> spec_sign vs key" for vs key
  proof
    assume "js ''0123456789ABCDEF'' = spec_sign vs key"
    then have "length (js ''0123456789ABCDEF'') = 32" by (simp only: len)
    then show False by (simp add: js_def)
  qed
  have a: "verifyResponse example_config
     (callback example_values (sign_callback example_config example_values))
     = Inr \<lparr>epId = js ''EP1'', TransactionStatus.invoiceId = js ''INV1'',
            TransactionStatus.amount = js ''10.00'', currency = js ''RON'', status = js ''0'',
            message = js ''Approved'', approval = js ''A1'', timestamp = js ''20240101120000'',
            nonce = js ''abcd'', fpHash = sign_callback example_config example_values\<rparr>"
    by (simp add: verifyResponse_authenticates callback_def example_values_def
        verified_names_def typed_status_def sign_callback_def generateHash_spec_sign
        Object_values_def)
  have b: "verifyResponse example_config (callback example_values (js ''0123456789ABCDEF''))
     = Inl (EuPlatescError (js ''Invalid response signature''))"
    using differ
    by (simp add: verifyResponse_authenticates callback_def example_values_def
        verified_names_def)
  have c: "verifyResponse example_config (callback (butlast example_values) (js ''0123456789ABCDEF''))
     = Inl TypeError"
    by (simp add: verifyResponse_authenticates callback_def example_values_def
        verified_names_def)
  from a b c show ?thesis by simp
qed

lemma single_field_changes_message:
  assumes "i < length values"
    and "length v \<noteq> length (values ! i) \<or> utf8 v \<noteq> utf8 (values ! i)"
  shows "signed_message (values[i := v]) \<noteq> signed_message values"
  using assms single_field_message [of i "values" v]
  unfolding signed_message_def by blast

lemma lone_surrogates_render_alike:
  "utf8 (js ''Approved'' @ [0xD83E]) = utf8 (js ''Approved'' @ [0xD83D])"
  by (simp add: js_def utf8_codepoint_def isHighSurrogate_def isLowSurrogate_def)

text \<open>
  Claim C3, amended. For every assignment of string values to the verifier's ten fields,
  signing them with the primary key and appending the result as \<^verbatim>\<open>fp_hash\<close> yields a
  callback on which \<^verbatim>\<open>verifyResponse\<close> succeeds. Changing the value of any single one
  of those fields (keeping the old \<^verbatim>\<open>fp_hash\<close>) makes \<^verbatim>\<open>verifyResponse\<close> fail exactly
  when the signature of the changed values differs from the old one; and the bytes that
  the HMAC authenticates do change whenever the new value differs from the old one in
  length or in UTF-8 rendering.
\<close>

theorem roundtrip_and_single_field_change:
  "length values = 10 \<Longrightarrow> i < 10 \<Longrightarrow>
     verifyResponse config (callback values (sign_callback config values))
       = Inr (typed_status (callback values (sign_callback config values)))
     \<and> verifyResponse config (callback (values[i := v]) (sign_callback config values))
       = (if sign_callback config (values[i := v]) = sign_callback config values
          then Inr (typed_status (callback (values[i := v]) (sign_callback config values)))
          else Inl (EuPlatescError (js ''Invalid response signature'')))
     \<and> (length v \<noteq> length (values ! i) \<or> utf8 v \<noteq> utf8 (values ! i)
          \<longrightarrow> signed_message (values[i := v]) \<noteq> signed_message values)"
proof -
  assume len: "length values = 10" and i: "i < 10"
  have "length v \<noteq> length (values ! i) \<or> utf8 v \<noteq> utf8 (values ! i)
          \<longrightarrow> signed_message (values[i := v]) \<noteq> signed_message values"
    using single_field_changes_message [of i "values" v] len i by simp
  moreover have "length (values[i := v]) = 10"
    using len by simp
  ultimately show ?thesis
    using len by (simp add: verifyResponse_callback)
qed

theorem roundtrip_and_single_field_change_witness:
  "verifyResponse example_config
     (callback example_values (sign_callback example_config example_values))
     = Inr (typed_status (callback example_values (sign_callback example_config example_values)))
   \<and> signed_message (example_values[6 := js ''Declined'']) \<noteq> signed_message example_values"
proof -
  have "length example_values = 10" and "(6::nat) < 10"
    and "utf8 (js ''Declined'') \<noteq> utf8 (example_values ! 6)"
    by (simp_all add: example_values_def js_def utf8_codepoint_def isHighSurrogate_def
        isLowSurrogate_def)
  with roundtrip_and_single_field_change [of example_values 6 example_config "js ''Declined''"]
  show ?thesis by blast
qed

text \<open>
  Claim C3 as stated fails: two strings that differ only in an unpaired surrogate have the
  same length and the same UTF-8 rendering, hence the same signature, and the changed
  callback still verifies under the old \<^verbatim>\<open>fp_hash\<close>.
\<close>

theorem changed_field_still_verifies:
  "altered_values \<noteq> truncated_values
   \<and> verifyResponse example_config
       (callback altered_values (sign_callback example_config truncated_values))
     = Inr (typed_status
             (callback altered_values (sign_callback example_config truncated_values)))"
proof -
  have len: "length truncated_values = 10" "length altered_values = 10"
    by (simp_all add: truncated_values_def altered_values_def example_values_def)
  have "signed_message altered_values = signed_message truncated_values"
    unfolding signed_message_def message_bytes
    by (simp add: altered_values_def truncated_values_def example_values_def utf8_spec_render
        lone_surrogates_render_alike)
  then have "sign_callback example_config altered_values
      = sign_callback example_config truncated_values"
    using len by (intro sign_callback_message)
  moreover have "altered_values \<noteq> truncated_values"
    by (simp add: altered_values_def truncated_values_def example_values_def)
  ultimately show ?thesis
    by (simp add: verifyResponse_callback [OF len(2)])
qed

section \<open>The envelope normalizer\<close>

text \<open>
  Claim C6. \<^verbatim>\<open>makeWebServiceRequest\<close> posts the form once and normalizes the outcome by
  these cases, in this priority order: (1) a transport failure (a rejected \<^verbatim>\<open>fetch\<close>, a
  body that is not JSON) or an HTTP status outside 200..299 gives a failure whose message
  describes it; (2) a reply with an \<^verbatim>\<open>error\<close> field gives a failure whose message is
  that field's value, whatever else the reply contains; (3) otherwise a reply with a
  \<^verbatim>\<open>cards\<close> field gives a success whose payload is the reply as it is; (4) otherwise a
  reply with no \<^verbatim>\<open>success\<close> field (a bare object or a bare list) gives a success
  whose payload is the reply as it is; (5) otherwise the payload is the value of the
  \<^verbatim>\<open>success\<close> field. A reply that is no object at all makes the \<^verbatim>\<open>in\<close> test throw,
  which is a failure of kind (1).
\<close>

theorem envelope_normalizer:
  "(fetch rt dat = Rejected e \<longrightarrow>
      snd (makeWebServiceRequest rt dat)
        = \<lparr>success = False, data = None,
           message = Some (JStr (case e of ErrorObject m \<Rightarrow> m
                                  | NonError \<Rightarrow> js ''Unknown error occurred''))\<rparr>)
   \<and> (fetch rt dat = Response st body \<and> \<not> (200 \<le> st \<and> st \<le> 299) \<longrightarrow>
      snd (makeWebServiceRequest rt dat)
        = \<lparr>success = False, data = None,
           message = Some (JStr (js ''HTTP error! status: '' @ decimal st))\<rparr>)
   \<and> (fetch rt dat = Response st (Inl e) \<and> 200 \<le> st \<and> st \<le> 299 \<longrightarrow>
      snd (makeWebServiceRequest rt dat)
        = \<lparr>success = False, data = None,
           message = Some (JStr (case e of ErrorObject m \<Rightarrow> m
                                  | NonError \<Rightarrow> js ''Unknown error occurred''))\<rparr>)
   \<and> (fetch rt dat = Response st (Inr (JObj props)) \<and> 200 \<le> st \<and> st \<le> 299 \<longrightarrow>
      snd (makeWebServiceRequest rt dat)
        = (if js ''error'' \<in> set (map fst props)
           then \<lparr>success = False, data = None, message = map_of props (js ''error'')\<rparr>
           else if js ''cards'' \<in> set (map fst props)
           then \<lparr>success = True, data = Some (JObj props), message = None\<rparr>
           else if js ''success'' \<notin> set (map fst props)
           then \<lparr>success = True, data = Some (JObj props), message = None\<rparr>
           else \<lparr>success = True, data = map_of props (js ''success''), message = None\<rparr>))
   \<and> (fetch rt dat = Response st (Inr (JArr items)) \<and> 200 \<le> st \<and> st \<le> 299 \<longrightarrow>
      snd (makeWebServiceRequest rt dat)
        = \<lparr>success = True, data = Some (JArr items), message = None\<rparr>)
   \<and> (fetch rt dat = Response st (Inr v) \<and> 200 \<le> st \<and> st \<le> 299
        \<and> (v = JNull \<or> (\<exists>b. v = JBool b) \<or> (\<exists>x. v = JNum x) \<or> (\<exists>s. v = JStr s)) \<longrightarrow>
      snd (makeWebServiceRequest rt dat)
        = \<lparr>success = False, data = None,
           message = Some (JStr (in_TypeError_message rt (js ''error'') v))\<rparr>)
   \<and> fst (makeWebServiceRequest rt dat) = [dat]"
  by (auto simp: makeWebServiceRequest_def caught_def ok_def js_in_def get_property_def)

theorem envelope_normalizer_witness:
  "snd (makeWebServiceRequest (example_runtime (Rejected (ErrorObject (js ''fetch failed'')))) [])
     = \<lparr>success = False, data = None, message = Some (JStr (js ''fetch failed''))\<rparr>
   \<and> snd (makeWebServiceRequest (example_runtime (Response 500 (Inr (JObj [])))) [])
     = \<lparr>success = False, data = None,
        message = Some (JStr (js ''HTTP error! status: 500''))\<rparr>
   \<and> snd (makeWebServiceRequest
             (example_runtime (Response 200 (Inr (JObj
                [(js ''cards'', JArr []), (js ''success'', JStr (js ''1'')),
                 (js ''error'', JStr (js ''bad epid''))])))) [])
     = \<lparr>success = False, data = None, message = Some (JStr (js ''bad epid''))\<rparr>
   \<and> snd (makeWebServiceRequest
             (example_runtime (Response 200 (Inr (JObj
                [(js ''success'', JStr (js ''1'')), (js ''cards'', JArr [])])))) [])
     = \<lparr>success = True,
        data = Some (JObj [(js ''success'', JStr (js ''1'')), (js ''cards'', JArr [])]),
        message = None\<rparr>
   \<and> snd (makeWebServiceRequest
             (example_runtime (Response 200 (Inr (JObj [(js ''name'', JStr (js ''Shop''))])))) [])
     = \<lparr>success = True, data = Some (JObj [(js ''name'', JStr (js ''Shop''))]),
        message = None\<rparr>
   \<and> snd (makeWebServiceRequest
             (example_runtime (Response 200 (Inr (JObj [(js ''success'', JStr (js ''EP1''))])))) [])
     = \<lparr>success = True, data = Some (JStr (js ''EP1'')), message = None\<rparr>"
proof -
  have five_hundred: "js ''HTTP error! status: '' @ decimal 500 = js ''HTTP error! status: 500''"
    by (simp add: js_def decimal.simps)
  note n = envelope_normalizer [where dat = "[]" and rt = "example_runtime reply" for reply]
  have rt: "fetch (example_runtime reply) form = reply" for reply form
    by (simp add: example_runtime_def)
  show ?thesis
    using n [of "Rejected (ErrorObject (js ''fetch failed''))" "ErrorObject (js ''fetch failed'')"]
      n [of "Response 500 (Inr (JObj []))" _ 500 "Inr (JObj [])"]
      n [of "Response 200 (Inr (JObj
                [(js ''cards'', JArr []), (js ''success'', JStr (js ''1'')),
                 (js ''error'', JStr (js ''bad epid''))]))" _ 200 _ 
            "[(js ''cards'', JArr []), (js ''success'', JStr (js ''1'')),
                 (js ''error'', JStr (js ''bad epid''))]"]
      n [of "Response 200 (Inr (JObj
                [(js ''success'', JStr (js ''1'')), (js ''cards'', JArr [])]))" _ 200 _
            "[(js ''success'', JStr (js ''1'')), (js ''cards'', JArr [])]"]
      n [of "Response 200 (Inr (JObj [(js ''name'', JStr (js ''Shop''))]))" _ 200 _
            "[(js ''name'', JStr (js ''Shop''))]"]
      n [of "Response 200 (Inr (JObj [(js ''success'', JStr (js ''EP1''))]))" _ 200 _
            "[(js ''success'', JStr (js ''EP1''))]"]
    by (simp add: rt five_hundred)
qed

section \<open>The operations\<close>

lemma capture_configured:
  "capture rt config (Some ws) request =
     (let dat = capture_data rt ws request (generateTimestamp rt) (generateNonce rt);
          form = dat @ [(js ''fp_hash'', spec_sign (Object_values dat) (uapiKey ws))]
      in Inr ([form], boolean_result (snd (makeWebServiceRequest rt form))))"
  by (simp add: capture_def Let_def generateUapiHash_spec_sign makeWebServiceRequest_def)

lemma refund_configured:
  "refund rt config (Some ws) request =
     (let dat = refund_data rt ws request (generateTimestamp rt) (generateNonce rt);
          form = dat @ [(js ''fp_hash'', spec_sign (Object_values dat) (uapiKey ws))]
      in Inr ([form], boolean_result (snd (makeWebServiceRequest rt form))))"
  by (simp add: refund_def Let_def generateUapiHash_spec_sign makeWebServiceRequest_def)

lemma makeWebServiceRequest_uniform: "uniform (snd (makeWebServiceRequest rt dat))"
  by (auto simp: makeWebServiceRequest_def caught_def uniform_def js_in_def get_property_def
      image_iff
      split: fetch_result.splits sum.splits json.splits bool.splits
      intro: weak_map_of_SomeI)

lemma makeWebServiceRequest_uniform_pair:
  "makeWebServiceRequest rt dat = (sent, r) \<Longrightarrow> uniform r"
  using makeWebServiceRequest_uniform [of rt dat] by simp

lemma not_configured_uniform: "uniform not_configured"
  by (simp add: uniform_def not_configured_def)

lemma pass_through_uniform:
  "resolved (checkStatus rt config wsConfig statusRequest) = Some r \<Longrightarrow> uniform r"
  "resolved (cancelRecurring rt config wsConfig cancellation) = Some r \<Longrightarrow> uniform r"
  "resolved (checkMerchantInfo rt config wsConfig) = Some r \<Longrightarrow> uniform r"
  "resolved (getCardArt rt config wsConfig ep) = Some r \<Longrightarrow> uniform r"
  "resolved (getSavedCards rt config wsConfig customer) = Some r \<Longrightarrow> uniform r"
  "resolved (getCapturedTotals rt config wsConfig totalsOptions) = Some r \<Longrightarrow> uniform r"
  "resolved (getInvoices rt config wsConfig invoicesOptions) = Some r \<Longrightarrow> uniform r"
  "resolved (getInvoiceTransactions rt config wsConfig invoiceNumber) = Some r \<Longrightarrow> uniform r"
  using not_configured_uniform
  by (auto simp: checkStatus_def cancelRecurring_def checkMerchantInfo_def getCardArt_def
      getSavedCards_def getCapturedTotals_def getInvoices_def getInvoiceTransactions_def
      resolved_def Let_def generateUapiHash_spec_sign
      split: prod.splits if_splits dest: makeWebServiceRequest_uniform_pair)

lemma boolean_result_shape:
  "boolean_result response = rb \<Longrightarrow> uniform response \<Longrightarrow>
     (success rb \<longleftrightarrow> message rb = None) \<and> data rb \<noteq> None
     \<and> (data rb = Some True \<longrightarrow> success rb)"
  by (auto simp: boolean_result_def uniform_def)

lemma never_rejected:
  "resolved (checkStatus rt config wsConfig statusRequest) \<noteq> None"
  "resolved (cancelRecurring rt config wsConfig cancellation) \<noteq> None"
  "resolved (refund rt config wsConfig refundRequest) \<noteq> None"
  "resolved (capture rt config wsConfig captureRequest) \<noteq> None"
  "resolved (checkMerchantInfo rt config wsConfig) \<noteq> None"
  "resolved (getCardArt rt config wsConfig ep) \<noteq> None"
  "resolved (getSavedCards rt config wsConfig customer) \<noteq> None"
  "resolved (getCapturedTotals rt config wsConfig totalsOptions) \<noteq> None"
  "resolved (getInvoices rt config wsConfig invoicesOptions) \<noteq> None"
  "resolved (getInvoiceTransactions rt config wsConfig invoiceNumber) \<noteq> None"
  by (auto simp: checkStatus_def cancelRecurring_def refund_def capture_def
      checkMerchantInfo_def getCardArt_def getSavedCards_def getCapturedTotals_def
      getInvoices_def getInvoiceTransactions_def resolved_def Let_def
      generateUapiHash_spec_sign split: prod.splits)

lemma refund_capture_shape:
  "resolved (refund rt config wsConfig refundRequest) = Some rb \<Longrightarrow>
     (success rb \<longleftrightarrow> message rb = None)
     \<and> (wsConfig = None \<longrightarrow> data rb = None \<and> \<not> success rb)
     \<and> (wsConfig \<noteq> None \<longrightarrow> data rb \<noteq> None \<and> (data rb = Some True \<longrightarrow> success rb))"
  "resolved (capture rt config wsConfig captureRequest) = Some rb \<Longrightarrow>
     (success rb \<longleftrightarrow> message rb = None)
     \<and> (wsConfig = None \<longrightarrow> data rb = None \<and> \<not> success rb)
     \<and> (wsConfig \<noteq> None \<longrightarrow> data rb \<noteq> None \<and> (data rb = Some True \<longrightarrow> success rb))"
proof -
  assume "resolved (refund rt config wsConfig refundRequest) = Some rb"
  then show "(success rb \<longleftrightarrow> message rb = None)
     \<and> (wsConfig = None \<longrightarrow> data rb = None \<and> \<not> success rb)
     \<and> (wsConfig \<noteq> None \<longrightarrow> data rb \<noteq> None \<and> (data rb = Some True \<longrightarrow> success rb))"
  proof (cases wsConfig)
    case None
    with \<open>resolved (refund rt config wsConfig refundRequest) = Some rb\<close> show ?thesis
      by (auto simp: refund_def resolved_def not_configured_def)
  next
    case (Some ws)
    with \<open>resolved (refund rt config wsConfig refundRequest) = Some rb\<close>
    obtain response where "boolean_result response = rb" and "uniform response"
      using makeWebServiceRequest_uniform
      by (auto simp: refund_configured resolved_def Let_def)
    from boolean_result_shape [OF this] Some show ?thesis by blast
  qed
next
  assume "resolved (capture rt config wsConfig captureRequest) = Some rb"
  then show "(success rb \<longleftrightarrow> message rb = None)
     \<and> (wsConfig = None \<longrightarrow> data rb = None \<and> \<not> success rb)
     \<and> (wsConfig \<noteq> None \<longrightarrow> data rb \<noteq> None \<and> (data rb = Some True \<longrightarrow> success rb))"
  proof (cases wsConfig)
    case None
    with \<open>resolved (capture rt config wsConfig captureRequest) = Some rb\<close> show ?thesis
      by (auto simp: capture_def resolved_def not_configured_def)
  next
    case (Some ws)
    with \<open>resolved (capture rt config wsConfig captureRequest) = Some rb\<close>
    obtain response where "boolean_result response = rb" and "uniform response"
      using makeWebServiceRequest_uniform
      by (auto simp: capture_configured resolved_def Let_def)
    from boolean_result_shape [OF this] Some show ?thesis by blast
  qed
qed

lemma js_empty: "js '''' = []"
  by (simp add: js_def)

lemma empty_value_changes_message:
  "signed_message (before @ js '''' # after) \<noteq> signed_message (before @ after)"
proof
  assume "signed_message (before @ js '''' # after) = signed_message (before @ after)"
  then have "length (signed_message (before @ js '''' # after))
      = length (signed_message (before @ after))" by simp
  then show False
    by (simp add: signed_message_def message_bytes utf8_spec_render js_def)
qed

text \<open>
  Claim C5, amended. In \<^verbatim>\<open>createPayment\<close> (generateEpid, valability, c2pId, c2pCid,
  lang), \<^verbatim>\<open>checkStatus\<close> (epid, invoiceId) and \<^verbatim>\<open>capture\<close> (amount) an absent
  optional input is excluded from the signed ordered field set. In \<^verbatim>\<open>cancelRecurring\<close>
  (reason), \<^verbatim>\<open>getCapturedTotals\<close> (from, to) and \<^verbatim>\<open>getInvoices\<close> (from, to) an absent
  optional input is included in the signed field set with the empty string as its value,
  which the signer renders as \<^verbatim>\<open>-\<close>. For the signer, omission and the empty string
  are distinct: a field set with an empty value and the same set without that field have
  different signed messages.
\<close>

theorem absent_optional_inputs:
  "(generateEpid payment = None \<longrightarrow>
      js ''generate_epid'' \<notin> set (map fst (createPayment_data rt config payment ts nc)))
   \<and> (valability payment = None \<longrightarrow>
      js ''valability'' \<notin> set (map fst (createPayment_data rt config payment ts nc)))
   \<and> (c2pId payment = None \<longrightarrow>
      js ''c2p_id'' \<notin> set (map fst (createPayment_data rt config payment ts nc)))
   \<and> (c2pCid payment = None \<longrightarrow>
      js ''c2p_cid'' \<notin> set (map fst (createPayment_data rt config payment ts nc)))
   \<and> (lang payment = None \<longrightarrow>
      js ''lang'' \<notin> set (map fst (createPayment_data rt config payment ts nc)))
   \<and> (CheckStatusRequest.epid statusRequest = None \<longrightarrow>
      js ''epid'' \<notin> set (map fst (checkStatus_data config statusRequest ts nc)))
   \<and> (CheckStatusRequest.invoiceId statusRequest = None \<longrightarrow>
      js ''invoice_id'' \<notin> set (map fst (checkStatus_data config statusRequest ts nc)))
   \<and> (CaptureRequest.amount captureRequest = None \<longrightarrow>
      js ''amount'' \<notin> set (map fst (capture_data rt ws captureRequest ts nc)))
   \<and> (RecurringCancellationRequest.reason cancellation = None \<longrightarrow>
      map_of (cancelRecurring_data ws cancellation ts nc) (js ''reason'') = Some (js ''''))
   \<and> (CapturedTotalsOptions.from' totalsOptions = None \<longrightarrow>
      map_of (getCapturedTotals_data ws totalsOptions ts nc) (js ''from'') = Some (js ''''))
   \<and> (CapturedTotalsOptions.to' totalsOptions = None \<longrightarrow>
      map_of (getCapturedTotals_data ws totalsOptions ts nc) (js ''to'') = Some (js ''''))
   \<and> (InvoicesOptions.from' invoicesOptions = None \<longrightarrow>
      map_of (getInvoices_data config ws invoicesOptions ts nc) (js ''from'') = Some (js ''''))
   \<and> (InvoicesOptions.to' invoicesOptions = None \<longrightarrow>
      map_of (getInvoices_data config ws invoicesOptions ts nc) (js ''to'') = Some (js ''''))
   \<and> hmacInput [js ''''] = js ''-''
   \<and> signed_message (before @ js '''' # after) \<noteq> signed_message (before @ after)"
  using empty_value_changes_message [of before after]
  by (auto simp: createPayment_data_def checkStatus_data_def capture_data_def
      cancelRecurring_data_def getCapturedTotals_data_def getInvoices_data_def
      truthy_boolean_def truthy_string_def truthy_number_def or_empty_def hmacInput_def
      js_empty)

theorem absent_optional_inputs_witness:
  "js ''epid'' \<notin> set (map fst (checkStatus_data example_config
       \<lparr>CheckStatusRequest.epid = None, CheckStatusRequest.invoiceId = Some (js ''INV1'')\<rparr>
       (js ''20240101120000'') (js ''abcd'')))
   \<and> js ''amount'' \<notin> set (map fst (capture_data (example_runtime (Rejected NonError))
       example_wsConfig \<lparr>CaptureRequest.epid = js ''EP1'', CaptureRequest.amount = None\<rparr>
       (js ''20240101120000'') (js ''abcd'')))
   \<and> map_of (getInvoices_data example_config example_wsConfig
       \<lparr>InvoicesOptions.from' = None, InvoicesOptions.to' = None\<rparr>
       (js ''20240101120000'') (js ''abcd'')) (js ''from'') = Some (js '''')
   \<and> signed_message [js '''', js ''x''] \<noteq> signed_message [js ''x'']"
  using absent_optional_inputs
    [where statusRequest = "\<lparr>CheckStatusRequest.epid = None,
             CheckStatusRequest.invoiceId = Some (js ''INV1'')\<rparr>"
       and config = example_config and ts = "js ''20240101120000''" and nc = "js ''abcd''"
       and captureRequest = "\<lparr>CaptureRequest.epid = js ''EP1'', CaptureRequest.amount = None\<rparr>"
       and rt = "example_runtime (Rejected NonError)" and ws = example_wsConfig
       and invoicesOptions = "\<lparr>InvoicesOptions.from' = None, InvoicesOptions.to' = None\<rparr>"
       and before = "[]" and after = "[js ''x'']"]
  by (simp add: js_empty)

text \<open>
  Claim C5 as stated fails: \<^verbatim>\<open>cancelRecurring\<close> called without a reason signs a field
  set that contains \<^verbatim>\<open>reason\<close> with the empty string, the same set as for an explicitly
  empty reason.
\<close>

theorem absent_reason_is_signed:
  "cancelRecurring_data example_wsConfig
       \<lparr>RecurringCancellationRequest.epid = js ''EP1'',
        RecurringCancellationRequest.reason = None\<rparr>
       (js ''20240101120000'') (js ''abcd'')
     = [(js ''method'', js ''cancel_recurring''), (js ''ukey'', js ''U1''),
        (js ''epid'', js ''EP1''), (js ''reason'', js ''''),
        (js ''timestamp'', js ''20240101120000''), (js ''nonce'', js ''abcd'')]
   \<and> cancelRecurring_data example_wsConfig
       \<lparr>RecurringCancellationRequest.epid = js ''EP1'',
        RecurringCancellationRequest.reason = None\<rparr>
       (js ''20240101120000'') (js ''abcd'')
     = cancelRecurring_data example_wsConfig
       \<lparr>RecurringCancellationRequest.epid = js ''EP1'',
        RecurringCancellationRequest.reason = Some (js '''')\<rparr>
       (js ''20240101120000'') (js ''abcd'')"
  by (simp add: cancelRecurring_data_def or_empty_def truthy_string_def example_wsConfig_def)

text \<open>
  Claim C7. For \<^verbatim>\<open>refund\<close> and \<^verbatim>\<open>capture\<close> (with the web-service credentials
  present) the result is the normalized response of the one request they post, with the
  payload replaced by a boolean that is true exactly when that response is a success and
  the \<^verbatim>\<open>success\<close> property of its payload is the string \<^verbatim>\<open>1\<close>. In particular, with
  HTTP status 200, the reply \<^verbatim>\<open>{success: {success: "1"}}\<close> gives a success with payload
  true, \<^verbatim>\<open>{success: {success: "0"}}\<close> a success with payload false, and
  \<^verbatim>\<open>{error: "bad epid"}\<close> a failure with message \<^verbatim>\<open>bad epid\<close>.
\<close>

theorem refund_capture_boolean:
  "(let dat = refund_data rt ws refundRequest (generateTimestamp rt) (generateNonce rt);
        form = dat @ [(js ''fp_hash'', spec_sign (Object_values dat) (uapiKey ws))];
        response = snd (makeWebServiceRequest rt form)
    in refund rt config (Some ws) refundRequest
         = Inr ([form],
                \<lparr>success = success response,
                 data = Some (success response
                              \<and> optional_success (data response) = Some (JStr (js ''1''))),
                 message = message response\<rparr>))
   \<and> (let dat = capture_data rt ws captureRequest (generateTimestamp rt) (generateNonce rt);
        form = dat @ [(js ''fp_hash'', spec_sign (Object_values dat) (uapiKey ws))];
        response = snd (makeWebServiceRequest rt form)
    in capture rt config (Some ws) captureRequest
         = Inr ([form],
                \<lparr>success = success response,
                 data = Some (success response
                              \<and> optional_success (data response) = Some (JStr (js ''1''))),
                 message = message response\<rparr>))
   \<and> (fetch rt = (\<lambda>form. Response 200 (Inr (JObj
          [(js ''success'', JObj [(js ''success'', JStr (js ''1''))])]))) \<longrightarrow>
        resolved (refund rt config (Some ws) refundRequest)
          = Some \<lparr>success = True, data = Some True, message = None\<rparr>
        \<and> resolved (capture rt config (Some ws) captureRequest)
          = Some \<lparr>success = True, data = Some True, message = None\<rparr>)
   \<and> (fetch rt = (\<lambda>form. Response 200 (Inr (JObj
          [(js ''success'', JObj [(js ''success'', JStr (js ''0''))])]))) \<longrightarrow>
        resolved (refund rt config (Some ws) refundRequest)
          = Some \<lparr>success = True, data = Some False, message = None\<rparr>
        \<and> resolved (capture rt config (Some ws) captureRequest)
          = Some \<lparr>success = True, data = Some False, message = None\<rparr>)
   \<and> (fetch rt = (\<lambda>form. Response 200 (Inr (JObj
          [(js ''error'', JStr (js ''bad epid''))]))) \<longrightarrow>
        resolved (refund rt config (Some ws) refundRequest)
          = Some \<lparr>success = False, data = Some False,
                  message = Some (JStr (js ''bad epid''))\<rparr>
        \<and> resolved (capture rt config (Some ws) captureRequest)
          = Some \<lparr>success = False, data = Some False,
                  message = Some (JStr (js ''bad epid''))\<rparr>)"
  by (simp add: refund_configured capture_configured boolean_result_def Let_def resolved_def
      makeWebServiceRequest_def ok_def js_in_def get_property_def optional_success_def)

theorem refund_capture_boolean_witness:
  "resolved (refund
       (example_runtime (Response 200 (Inr (JObj
          [(js ''success'', JObj [(js ''success'', JStr (js ''1''))])]))))
       example_config (Some example_wsConfig)
       \<lparr>RefundRequest.epid = js ''EP1'', RefundRequest.amount = Finite 50,
        reason = js ''duplicate''\<rparr>)
     = Some \<lparr>success = True, data = Some True, message = None\<rparr>
   \<and> resolved (capture
       (example_runtime (Response 200 (Inr (JObj
          [(js ''success'', JObj [(js ''success'', JStr (js ''0''))])]))))
       example_config (Some example_wsConfig)
       \<lparr>CaptureRequest.epid = js ''EP1'', CaptureRequest.amount = None\<rparr>)
     = Some \<lparr>success = True, data = Some False, message = None\<rparr>
   \<and> resolved (refund
       (example_runtime (Response 200 (Inr (JObj [(js ''error'', JStr (js ''bad epid''))]))))
       example_config (Some example_wsConfig)
       \<lparr>RefundRequest.epid = js ''EP1'', RefundRequest.amount = Finite 50,
        reason = js ''duplicate''\<rparr>)
     = Some \<lparr>success = False, data = Some False, message = Some (JStr (js ''bad epid''))\<rparr>"
proof -
  note b = refund_capture_boolean
    [where rt = "example_runtime reply" and config = example_config and ws = example_wsConfig
     for reply]
  have rt: "fetch (example_runtime reply) = (\<lambda>form. reply)" for reply
    by (simp add: example_runtime_def)
  show ?thesis
    using b [of "Response 200 (Inr (JObj
          [(js ''success'', JObj [(js ''success'', JStr (js ''1''))])]))"
        "\<lparr>RefundRequest.epid = js ''EP1'', RefundRequest.amount = Finite 50,
          reason = js ''duplicate''\<rparr>"]
      b [of "Response 200 (Inr (JObj
          [(js ''success'', JObj [(js ''success'', JStr (js ''0''))])]))" _
        "\<lparr>CaptureRequest.epid = js ''EP1'', CaptureRequest.amount = None\<rparr>"]
      b [of "Response 200 (Inr (JObj [(js ''error'', JStr (js ''bad epid''))]))"
        "\<lparr>RefundRequest.epid = js ''EP1'', RefundRequest.amount = Finite 50,
          reason = js ''duplicate''\<rparr>"]
    by (simp add: rt)
qed

text \<open>
  Claim C8. Each of the ten server-to-server operations, called when the web-service
  credentials are absent, returns the failure result with the fixed message
  ``WebService configuration required for this operation'' and posts nothing.
\<close>

theorem operations_require_wsConfig:
  "checkStatus rt config None statusRequest
     = Inr ([], \<lparr>success = False, data = None,
                 message = Some (JStr (js ''WebService configuration required for this operation''))\<rparr>)
   \<and> cancelRecurring rt config None cancellation
     = Inr ([], \<lparr>success = False, data = None,
                 message = Some (JStr (js ''WebService configuration required for this operation''))\<rparr>)
   \<and> refund rt config None refundRequest
     = Inr ([], \<lparr>success = False, data = None,
                 message = Some (JStr (js ''WebService configuration required for this operation''))\<rparr>)
   \<and> capture rt config None captureRequest
     = Inr ([], \<lparr>success = False, data = None,
                 message = Some (JStr (js ''WebService configuration required for this operation''))\<rparr>)
   \<and> checkMerchantInfo rt config None
     = Inr ([], \<lparr>success = False, data = None,
                 message = Some (JStr (js ''WebService configuration required for this operation''))\<rparr>)
   \<and> getCardArt rt config None ep
     = Inr ([], \<lparr>success = False, data = None,
                 message = Some (JStr (js ''WebService configuration required for this operation''))\<rparr>)
   \<and> getSavedCards rt config None customer
     = Inr ([], \<lparr>success = False, data = None,
                 message = Some (JStr (js ''WebService configuration required for this operation''))\<rparr>)
   \<and> getCapturedTotals rt config None totalsOptions
     = Inr ([], \<lparr>success = False, data = None,
                 message = Some (JStr (js ''WebService configuration required for this operation''))\<rparr>)
   \<and> getInvoices rt config None invoicesOptions
     = Inr ([], \<lparr>success = False, data = None,
                 message = Some (JStr (js ''WebService configuration required for this operation''))\<rparr>)
   \<and> getInvoiceTransactions rt config None invoiceNumber
     = Inr ([], \<lparr>success = False, data = None,
                 message = Some (JStr (js ''WebService configuration required for this operation''))\<rparr>)"
  by (simp add: checkStatus_def cancelRecurring_def refund_def capture_def checkMerchantInfo_def
      getCardArt_def getSavedCards_def getCapturedTotals_def getInvoices_def
      getInvoiceTransactions_def not_configured_def WebService_required_def)

text \<open>
  Claim C9, amended. No operation rejects. Every result of \<^verbatim>\<open>checkStatus\<close>,
  \<^verbatim>\<open>cancelRecurring\<close>, \<^verbatim>\<open>checkMerchantInfo\<close>, \<^verbatim>\<open>getCardArt\<close>, \<^verbatim>\<open>getSavedCards\<close>,
  \<^verbatim>\<open>getCapturedTotals\<close>, \<^verbatim>\<open>getInvoices\<close> and \<^verbatim>\<open>getInvoiceTransactions\<close> satisfies
  the invariant: a success carries a payload and no message, a failure a message and no
  payload. A result of \<^verbatim>\<open>refund\<close> or \<^verbatim>\<open>capture\<close> carries a message exactly when it is
  a failure; without web-service credentials it is a failure without payload, and with
  them it always carries a boolean payload, which is true only on a success.
\<close>

theorem results_are_uniform:
  "(resolved (checkStatus rt config wsConfig statusRequest) = Some r \<longrightarrow> uniform r)
   \<and> (resolved (cancelRecurring rt config wsConfig cancellation) = Some r \<longrightarrow> uniform r)
   \<and> (resolved (checkMerchantInfo rt config wsConfig) = Some r \<longrightarrow> uniform r)
   \<and> (resolved (getCardArt rt config wsConfig ep) = Some r \<longrightarrow> uniform r)
   \<and> (resolved (getSavedCards rt config wsConfig customer) = Some r \<longrightarrow> uniform r)
   \<and> (resolved (getCapturedTotals rt config wsConfig totalsOptions) = Some r \<longrightarrow> uniform r)
   \<and> (resolved (getInvoices rt config wsConfig invoicesOptions) = Some r \<longrightarrow> uniform r)
   \<and> (resolved (getInvoiceTransactions rt config wsConfig invoiceNumber) = Some r
        \<longrightarrow> uniform r)
   \<and> (resolved (refund rt config wsConfig refundRequest) = Some rb \<longrightarrow>
        (success rb \<longleftrightarrow> message rb = None)
        \<and> (wsConfig = None \<longrightarrow> data rb = None \<and> \<not> success rb)
        \<and> (wsConfig \<noteq> None \<longrightarrow> data rb \<noteq> None \<and> (data rb = Some True \<longrightarrow> success rb)))
   \<and> (resolved (capture rt config wsConfig captureRequest) = Some rb \<longrightarrow>
        (success rb \<longleftrightarrow> message rb = None)
        \<and> (wsConfig = None \<longrightarrow> data rb = None \<and> \<not> success rb)
        \<and> (wsConfig \<noteq> None \<longrightarrow> data rb \<noteq> None \<and> (data rb = Some True \<longrightarrow> success rb)))
   \<and> resolved (checkStatus rt config wsConfig statusRequest) \<noteq> None
   \<and> resolved (cancelRecurring rt config wsConfig cancellation) \<noteq> None
   \<and> resolved (refund rt config wsConfig refundRequest) \<noteq> None
   \<and> resolved (capture rt config wsConfig captureRequest) \<noteq> None
   \<and> resolved (checkMerchantInfo rt config wsConfig) \<noteq> None
   \<and> resolved (getCardArt rt config wsConfig ep) \<noteq> None
   \<and> resolved (getSavedCards rt config wsConfig customer) \<noteq> None
   \<and> resolved (getCapturedTotals rt config wsConfig totalsOptions) \<noteq> None
   \<and> resolved (getInvoices rt config wsConfig invoicesOptions) \<noteq> None
   \<and> resolved (getInvoiceTransactions rt config wsConfig invoiceNumber) \<noteq> None"
proof -
  note shape = refund_capture_shape [of rt config wsConfig _ rb]
  show ?thesis
    by (intro conjI impI never_rejected; (erule pass_through_uniform | drule shape; blast))
qed

theorem results_are_uniform_witness:
  "resolved (getCardArt
       (example_runtime (Response 200 (Inr (JObj [(js ''error'', JStr (js ''bad epid''))]))))
       example_config (Some example_wsConfig) (js ''EP1''))
     = Some \<lparr>success = False, data = None, message = Some (JStr (js ''bad epid''))\<rparr>
   \<and> uniform \<lparr>success = False, data = (None :: json option),
               message = Some (JStr (js ''bad epid''))\<rparr>
   \<and> resolved (capture
       (example_runtime (Response 200 (Inr (JObj
          [(js ''success'', JObj [(js ''success'', JStr (js ''1''))])]))))
       example_config (Some example_wsConfig)
       \<lparr>CaptureRequest.epid = js ''EP1'', CaptureRequest.amount = None\<rparr>)
     = Some \<lparr>success = True, data = Some True, message = None\<rparr>
   \<and> resolved (refund (example_runtime (Rejected NonError)) example_config None
       \<lparr>RefundRequest.epid = js ''EP1'', RefundRequest.amount = Finite 50,
        reason = js ''duplicate''\<rparr>)
     = Some \<lparr>success = False, data = None,
             message = Some (JStr (js ''WebService configuration required for this operation''))\<rparr>"
proof -
  have a: "resolved (getCardArt
       (example_runtime (Response 200 (Inr (JObj [(js ''error'', JStr (js ''bad epid''))]))))
       example_config (Some example_wsConfig) (js ''EP1''))
     = Some \<lparr>success = False, data = None, message = Some (JStr (js ''bad epid''))\<rparr>"
    by (simp add: getCardArt_def Let_def generateUapiHash_spec_sign resolved_def
        makeWebServiceRequest_def example_runtime_def ok_def js_in_def get_property_def)
  have b: "resolved (capture
       (example_runtime (Response 200 (Inr (JObj
          [(js ''success'', JObj [(js ''success'', JStr (js ''1''))])]))))
       example_config (Some example_wsConfig)
       \<lparr>CaptureRequest.epid = js ''EP1'', CaptureRequest.amount = None\<rparr>)
     = Some \<lparr>success = True, data = Some True, message = None\<rparr>"
    by (simp add: capture_configured Let_def resolved_def boolean_result_def
        makeWebServiceRequest_def example_runtime_def ok_def js_in_def get_property_def
        optional_success_def)
  have c: "resolved (refund (example_runtime (Rejected NonError)) example_config None
       \<lparr>RefundRequest.epid = js ''EP1'', RefundRequest.amount = Finite 50,
        reason = js ''duplicate''\<rparr>)
     = Some \<lparr>success = False, data = None,
             message = Some (JStr (js ''WebService configuration required for this operation''))\<rparr>"
    by (simp add: refund_def resolved_def not_configured_def WebService_required_def)
  from a results_are_uniform
    [of "example_runtime (Response 200 (Inr (JObj [(js ''error'', JStr (js ''bad epid''))])))"
      example_config "Some example_wsConfig" _
      "\<lparr>success = False, data = None, message = Some (JStr (js ''bad epid''))\<rparr>"
      _ "js ''EP1''"]
  have "uniform \<lparr>success = False, data = (None :: json option),
                 message = Some (JStr (js ''bad epid''))\<rparr>"
    by blast
  with a b c show ?thesis by blast
qed

text \<open>
  Claim C9 as stated fails: a \<^verbatim>\<open>refund\<close> that the gateway answers with an error is a
  failure that carries the payload \<^verbatim>\<open>false\<close> next to its message.
\<close>

theorem failed_refund_has_payload:
  "resolved (refund
       (example_runtime (Response 200 (Inr (JObj [(js ''error'', JStr (js ''bad epid''))]))))
       example_config (Some example_wsConfig)
       \<lparr>RefundRequest.epid = js ''EP1'', RefundRequest.amount = Finite 50,
        reason = js ''duplicate''\<rparr>)
     = Some \<lparr>success = False, data = Some False, message = Some (JStr (js ''bad epid''))\<rparr>
   \<and> \<not> uniform \<lparr>success = False, data = Some False,
                  message = Some (JStr (js ''bad epid''))\<rparr>"
  by (simp add: refund_configured Let_def resolved_def boolean_result_def uniform_def
      makeWebServiceRequest_def example_runtime_def ok_def js_in_def get_property_def
      optional_success_def)

text \<open>
  Claim C10. A capture request whose amount is the number 0 selects the method name
  \<^verbatim>\<open>capture\<close> and signs a field set without \<^verbatim>\<open>amount\<close>, exactly as a request with no
  amount does, and the whole operation behaves alike; the method is
  \<^verbatim>\<open>partial_capture\<close>, and \<^verbatim>\<open>amount\<close> is signed, only for an amount that is truthy.
\<close>

theorem capture_amount_zero:
  "capture_data rt ws \<lparr>CaptureRequest.epid = ep, CaptureRequest.amount = Some (Finite 0)\<rparr> ts nc
     = [(js ''method'', js ''capture''), (js ''ukey'', userKey ws), (js ''epid'', ep),
        (js ''timestamp'', ts), (js ''nonce'', nc)]
   \<and> capture_data rt ws \<lparr>CaptureRequest.epid = ep, CaptureRequest.amount = Some (Finite 0)\<rparr> ts nc
     = capture_data rt ws \<lparr>CaptureRequest.epid = ep, CaptureRequest.amount = None\<rparr> ts nc
   \<and> capture rt config wsConfig \<lparr>CaptureRequest.epid = ep, CaptureRequest.amount = Some (Finite 0)\<rparr>
     = capture rt config wsConfig \<lparr>CaptureRequest.epid = ep, CaptureRequest.amount = None\<rparr>
   \<and> (map_of (capture_data rt ws request ts nc) (js ''method'') = Some (js ''partial_capture'')
        \<longleftrightarrow> truthy_number (CaptureRequest.amount request))
   \<and> (js ''amount'' \<in> set (map fst (capture_data rt ws request ts nc))
        \<longleftrightarrow> truthy_number (CaptureRequest.amount request))"
  by (simp add: capture_data_def capture_def truthy_number_def)

section \<open>Order of the fields\<close>

subsection \<open>Code units of a UTF-8 rendering\<close>

lemma units_append: "units (xs @ ys) = units xs + units ys"
  by (simp add: units_def)

lemma byte_units_of_nat:
  "k < 256 \<Longrightarrow> byte_units (of_nat k) =
     (if k < 0x80 then 1 else if k < 0xC0 then 0 else if k < 0xF0 then 1 else 2)"
  by (simp add: byte_units_def word_less_nat_alt unat_of_nat)

lemma byte_units_offset:
  assumes "a + k < 256"
  shows "byte_units (of_nat a + of_nat k) =
     (if a + k < 0x80 then 1 else if a + k < 0xC0 then 0 else if a + k < 0xF0 then 1 else 2)"
proof -
  have "(of_nat a + of_nat k :: 8 word) = of_nat (a + k)" by simp
  then show ?thesis
    using byte_units_of_nat [OF assms] by (simp only:)
qed

lemma byte_units_sequence:
  "k < 64 \<Longrightarrow> byte_units (128 + of_nat k) = 0"
  "k < 32 \<Longrightarrow> byte_units (192 + of_nat k) = 1"
  "k < 16 \<Longrightarrow> byte_units (224 + of_nat k) = 1"
  "k < 16 \<Longrightarrow> byte_units (240 + of_nat k) = 2"
  using byte_units_offset [of 128 k] byte_units_offset [of 192 k]
    byte_units_offset [of 224 k] byte_units_offset [of 240 k]
  by simp_all

lemma units_codepoint:
  "c < 0x110000 \<Longrightarrow> units (utf8_codepoint c) = (if c < 0x10000 then 1 else 2)"
  by (simp add: utf8_codepoint_def units_def byte_units_of_nat byte_units_sequence
      div_less_iff_less_mult)

lemma surrogate_pair_codepoint:
  assumes "isHighSurrogate u" and "isLowSurrogate l"
  shows "0x10000 \<le> 0x10000 + (unat u - 0xD800) * 1024 + (unat l - 0xDC00)"
    and "0x10000 + (unat u - 0xD800) * 1024 + (unat l - 0xDC00) < 0x110000"
proof -
  from assms have "unat u \<le> 0xDBFF" and "unat l \<le> 0xDFFF"
    by (simp_all add: isHighSurrogate_def isLowSurrogate_def word_le_nat_alt)
  then show "0x10000 + (unat u - 0xD800) * 1024 + (unat l - 0xDC00) < 0x110000"
    by simp
qed simp

lemma units_utf8: "units (utf8 s) = length s"
proof (induction s rule: utf8.induct)
  case 1
  then show ?case by (simp add: units_def)
next
  case (2 u)
  have "unat u < 0x110000" using unsigned_less [of u, where 'a = nat] by simp
  moreover have "unat u < 0x10000" using unsigned_less [of u, where 'a = nat] by simp
  ultimately show ?case by (simp add: units_codepoint)
next
  case (3 u l us)
  have u: "unat u < 0x110000" "unat u < 0x10000"
    using unsigned_less [of u, where 'a = nat] by simp_all
  show ?case
  proof (cases "isHighSurrogate u \<and> isLowSurrogate l")
    case True
    with surrogate_pair_codepoint [of u l] 3 show ?thesis
      by (simp add: units_append units_codepoint)
  next
    case False
    with 3 u show ?thesis
      by (auto simp: units_append units_codepoint)
  qed
qed

lemma utf8_decimal_ascii: "b \<in> set (utf8 (decimal n)) \<Longrightarrow> b < 0x80"
proof (induction n rule: decimal.induct)
  case (1 n)
  have digit: "(0x30 + of_nat k :: 8 word) < 0x80" if "k < 10" for k
    using one_digit [OF that] by auto
  show ?case
  proof (cases "n < 10")
    case True
    with "1.prems" digit [of n] show ?thesis
      by (simp add: utf8_decimal [of n])
  next
    case False
    with "1.prems" "1.IH" digit [of "n mod 10"] show ?thesis
      by (auto simp: utf8_decimal [of n])
  qed
qed

lemma render_bytes_head:
  "utf8 (spec_render v) \<noteq> [] \<and> hd (utf8 (spec_render v)) < 0x80"
proof (cases "v = []")
  case True
  then show ?thesis by (simp add: utf8_spec_render)
next
  case False
  have "hd (utf8 (decimal (length v))) \<in> set (utf8 (decimal (length v)))"
    using utf8_decimal_nonempty by (intro hd_in_set)
  then have "hd (utf8 (decimal (length v))) < 0x80"
    by (rule utf8_decimal_ascii)
  with False show ?thesis
    by (simp add: utf8_spec_render utf8_decimal_nonempty)
qed

lemma message_bytes_head:
  "concat (map (\<lambda>v. utf8 (spec_render v)) vs) = []
   \<or> hd (concat (map (\<lambda>v. utf8 (spec_render v)) vs)) < 0x80"
  using render_bytes_head by (cases vs) simp_all

lemma units_positive: "X \<noteq> [] \<Longrightarrow> hd X < 0x80 \<Longrightarrow> 0 < units X"
  by (cases X) (simp_all add: units_def byte_units_def)

lemma same_units_prefix_free:
  assumes eq: "A @ M1 = B @ M2" and un: "units A = units B"
    and M1: "M1 = [] \<or> hd M1 < 0x80" and M2: "M2 = [] \<or> hd M2 < 0x80"
  shows "A = B"
proof -
  from eq obtain X where
    "(A = B @ X \<and> X @ M1 = M2) \<or> (A @ X = B \<and> M1 = X @ M2)"
    by (auto simp: append_eq_append_conv2)
  then show ?thesis
  proof
    assume *: "A = B @ X \<and> X @ M1 = M2"
    with un have "units X = 0" by (simp add: units_append)
    moreover have "0 < units X" if "X \<noteq> []"
      using that * M2 by (intro units_positive) auto
    ultimately show ?thesis using * by auto
  next
    assume *: "A @ X = B \<and> M1 = X @ M2"
    with un have "units X = 0" by (auto simp: units_append)
    moreover have "0 < units X" if "X \<noteq> []"
      using that * M1 by (intro units_positive) auto
    ultimately show ?thesis using * by auto
  qed
qed

lemma first_difference_changes_message:
  assumes len: "length a = length b" and diff: "utf8 a \<noteq> utf8 b"
  shows "signed_message (pre @ a # r1) \<noteq> signed_message (pre @ b # r2)"
proof
  let ?R = "\<lambda>v. utf8 (spec_render v)"
  assume "signed_message (pre @ a # r1) = signed_message (pre @ b # r2)"
  then have eq: "?R a @ concat (map ?R r1) = ?R b @ concat (map ?R r2)"
    by (simp add: signed_message_def message_bytes)
  from diff len have ne: "a \<noteq> []" "b \<noteq> []" by auto
  with eq len have "utf8 a @ concat (map ?R r1) = utf8 b @ concat (map ?R r2)"
    by (simp add: utf8_spec_render)
  moreover have "units (utf8 a) = units (utf8 b)"
    using len by (simp add: units_utf8)
  ultimately have "utf8 a = utf8 b"
    using message_bytes_head [of r1] message_bytes_head [of r2]
    by (rule same_units_prefix_free)
  with diff show False by simp
qed

subsection \<open>Two signatures, evaluated\<close>

lemma example_signature_ab_cd:
  "generateHash example_config [(js ''x'', js ''ab''), (js ''y'', js ''cd'')]
     = js ''1BF5D2D07E80CFB26930C02E4F7E35A8''"
  by code_simp

lemma example_signature_cd_ab:
  "generateHash example_config [(js ''y'', js ''cd''), (js ''x'', js ''ab'')]
     = js ''C85F76131B8F7823E68D9D254C4D13FA''"
  by code_simp

lemma same_message_same_signature:
  "secretKey config = secretKey config' \<Longrightarrow>
   signed_message (Object_values dat) = signed_message (Object_values dat') \<Longrightarrow>
   generateHash config dat = generateHash config' dat'"
  by (simp add: generateHash_def createHmac_md5_hex_def signed_message_def)

text \<open>
  Claim C4, amended. The signer is deterministic: the signature is determined by the key
  and the ordered sequence of field values (the field names play no part), and equal
  signed messages give equal signatures. It is sensitive to order through the signed
  message: two sequences that first differ at a position holding values of the same
  length and different UTF-8 renderings have different signed messages, and for example
  the values \<^verbatim>\<open>ab\<close>, \<^verbatim>\<open>cd\<close> signed in the two orders under the example key give
  different signatures.
\<close>

theorem signer_deterministic_and_order:
  "(secretKey config = secretKey config' \<and> Object_values dat = Object_values dat'
      \<longrightarrow> generateHash config dat = generateHash config' dat')
   \<and> (signed_message (Object_values dat) = signed_message (Object_values dat')
      \<longrightarrow> generateHash config dat = generateHash config dat')
   \<and> (length a = length b \<and> utf8 a \<noteq> utf8 b
      \<longrightarrow> signed_message (pre @ a # r1) \<noteq> signed_message (pre @ b # r2))
   \<and> generateHash example_config [(js ''x'', js ''ab''), (js ''y'', js ''cd'')]
      \<noteq> generateHash example_config [(js ''y'', js ''cd''), (js ''x'', js ''ab'')]"
proof -
  have "generateHash example_config [(js ''x'', js ''ab''), (js ''y'', js ''cd'')]
      \<noteq> generateHash example_config [(js ''y'', js ''cd''), (js ''x'', js ''ab'')]"
    unfolding example_signature_ab_cd example_signature_cd_ab by simp
  then show ?thesis
    using same_message_same_signature [of config config' dat dat']
      same_message_same_signature [of config config dat dat']
      first_difference_changes_message [of a b pre r1 r2]
    by auto
qed

theorem signer_deterministic_and_order_witness:
  "generateHash example_config [(js ''x'', js ''ab''), (js ''y'', js ''cd'')]
     = generateHash example_config [(js ''renamed'', js ''ab''), (js ''y'', js ''cd'')]
   \<and> signed_message [js ''ab'', js ''cd''] \<noteq> signed_message [js ''cd'', js ''ab'']"
proof -
  have "utf8 (js ''ab'') \<noteq> utf8 (js ''cd'')"
    by (simp add: js_def utf8_codepoint_def isHighSurrogate_def isLowSurrogate_def)
  then show ?thesis
    using signer_deterministic_and_order
      [of example_config example_config
        "[(js ''x'', js ''ab''), (js ''y'', js ''cd'')]"
        "[(js ''renamed'', js ''ab''), (js ''y'', js ''cd'')]"
        "js ''ab''" "js ''cd''" "[]" "[js ''cd'']" "[js ''ab'']"]
    by (simp add: Object_values_def js_def)
qed

text \<open>
  Claim C4 as stated fails: the length-prefixed concatenations of \<^verbatim>\<open>2\<close>,
  \<^verbatim>\<open>121212121212\<close> and of \<^verbatim>\<open>121212121212\<close>, \<^verbatim>\<open>2\<close> are the same string, so the
  two orders of this field set have the same signature.
\<close>

theorem reordering_keeps_signature:
  "[(js ''a'', js ''2''), (js ''b'', js ''121212121212'')]
     \<noteq> [(js ''b'', js ''121212121212''), (js ''a'', js ''2'')]
   \<and> generateHash example_config [(js ''a'', js ''2''), (js ''b'', js ''121212121212'')]
     = generateHash example_config [(js ''b'', js ''121212121212''), (js ''a'', js ''2'')]"
proof -
  have "hmacInput [js ''2'', js ''121212121212''] = hmacInput [js ''121212121212'', js ''2'']"
    by (simp add: hmacInput_def js_def decimal.simps)
  then show ?thesis
    by (simp add: generateHash_def Object_values_def)
qed

end
